theory Spec2Isabelle
  imports Complex_Main "HOL-Library.Multiset"
begin

section \<open>Shared notions\<close>

text \<open>
  Go's \<open>time.Duration\<close> is a signed 64-bit count of nanoseconds; the constants below are
  those of package \<open>time\<close>. Instants are nanoseconds since the Unix epoch. None of the
  quantities used here comes near the 64-bit range, so both are unbounded integers.
\<close>

type_synonym Duration = int
type_synonym Time = int

definition Nanosecond :: Duration where "Nanosecond = 1"
definition Microsecond :: Duration where "Microsecond = 1000 * Nanosecond"
definition Millisecond :: Duration where "Millisecond = 1000 * Microsecond"
definition Second :: Duration where "Second = 1000 * Millisecond"
definition Minute :: Duration where "Minute = 60 * Second"
definition Hour :: Duration where "Hour = 60 * Minute"

definition Unix :: "Time \<Rightarrow> int" where
  "Unix t = t div Second"

text \<open>\<open>fmt.Sprintf("%d", n)\<close>: the decimal rendering of an integer.\<close>

definition digit_char :: "nat \<Rightarrow> char" where
  "digit_char d = ''0123456789'' ! d"

fun digits :: "nat \<Rightarrow> string" where
  "digits n = (if n < 10 then [digit_char n] else digits (n div 10) @ [digit_char (n mod 10)])"

declare digits.simps [simp del]

definition fmt_d :: "int \<Rightarrow> string" where
  "fmt_d i = (if i < 0 then CHR ''-'' # digits (nat (- i)) else digits (nat i))"

section \<open>API gateway: throttling middleware (middleware/ratelimit.go)\<close>

text \<open>
  The Redis client as the middleware uses it: \<open>Incr\<close> and \<open>Expire\<close> on string keys.
  \<open>redis_up\<close> says whether the store answers; when it does not, \<open>Incr\<close> returns an error
  and changes nothing.
\<close>

record Redis =
  redis_up :: bool
  counters :: "string \<rightharpoonup> int"
  ttl :: "string \<rightharpoonup> Duration"

definition Incr :: "Redis \<Rightarrow> string \<Rightarrow> (string + int) \<times> Redis" where
  "Incr r key =
     (if \<not> redis_up r then (Inl ''redis: connection refused'', r)
      else let c = (case counters r key of None \<Rightarrow> 0 | Some v \<Rightarrow> v) + 1
           in (Inr c, r\<lparr>counters := (counters r)(key \<mapsto> c)\<rparr>))"

definition Expire :: "Redis \<Rightarrow> string \<Rightarrow> Duration \<Rightarrow> Redis" where
  "Expire r key window = (if redis_up r then r\<lparr>ttl := (ttl r)(key \<mapsto> window)\<rparr> else r)"

text \<open>
  What a gin middleware leaves behind: whether it called \<open>c.Next()\<close>, the status it wrote
  with \<open>c.JSON\<close> (if any) together with the \<open>error\<close> field of the body, and the response
  headers it set.
\<close>

record MiddlewareResult =
  next_called :: bool
  written :: "(nat \<times> string) option"
  headers :: "(string \<times> string) list"

definition StatusTooManyRequests :: nat where "StatusTooManyRequests = 429"

text \<open>
  \<open>RateLimit(redisClient, limit, window)\<close> applied to one request. \<open>user_id\<close> is the value
  the Auth middleware stored in the context, if any; \<open>client_ip\<close> is the fallback.
\<close>

definition RateLimit ::
  "int \<Rightarrow> Duration \<Rightarrow> Time \<Rightarrow> string option \<Rightarrow> string \<Rightarrow> Redis \<Rightarrow> MiddlewareResult \<times> Redis" where
  "RateLimit limit window now user_id client_ip redis =
     (let userID = (case user_id of Some u \<Rightarrow> u | None \<Rightarrow> client_ip);
          key = ''ratelimit:'' @ userID
      in case Incr redis key of
           (Inl err, r1) \<Rightarrow>
             (\<lparr>next_called = True, written = None, headers = []\<rparr>, r1)
         | (Inr cnt, r1) \<Rightarrow>
             (let r2 = (if cnt = 1 then Expire r1 key window else r1)
              in if cnt > limit then
                   (\<lparr>next_called = False,
                     written = Some (StatusTooManyRequests, ''rate limit exceeded''),
                     headers = [(''X-RateLimit-Limit'', fmt_d limit),
                                (''X-RateLimit-Remaining'', ''0''),
                                (''X-RateLimit-Reset'', fmt_d (Unix (now + window)))]\<rparr>, r2)
                 else
                   (\<lparr>next_called = True, written = None,
                     headers = [(''X-RateLimit-Limit'', fmt_d limit),
                                (''X-RateLimit-Remaining'', fmt_d (limit - cnt))]\<rparr>, r2)))"

section \<open>JSON values\<close>

text \<open>
  What \<open>encoding/json\<close> decodes into \<open>interface{}\<close>: \<open>nil\<close>, \<open>bool\<close>, \<open>float64\<close>,
  \<open>string\<close>, \<open>[]interface{}\<close> and \<open>map[string]interface{}\<close>. A Go map with string keys
  is an association list with distinct keys; \<open>float64\<close> numbers are only carried around,
  never computed with, and are taken as reals.
\<close>

datatype json = JNull | JBool bool | JNum real | JStr string | JArr "json list"
  | JObj "(string \<times> json) list"

type_synonym object = "(string \<times> json) list"

section \<open>Batch worker: job store (storage/postgres.go)\<close>

datatype JobStatus = StatusPending | StatusProcessing | StatusCompleted | StatusFailed

record BatchJob =
  ID :: string
  Model :: string
  Version :: string
  Inputs :: "object list"
  Status :: JobStatus
  Progress :: real
  TotalItems :: int
  Completed :: int
  ResultURL :: string
  ErrorMsg :: string
  CreatedAt :: Time
  UpdatedAt :: Time
  CompletedAt :: "Time option"

text \<open>
  A row of table \<open>batch_jobs\<close> (the columns of \<open>initSchema\<close> other than the primary key
  \<open>id\<close>, which is the key of the table below). Nullable columns are options.
\<close>

record JobRow =
  col_model :: string
  col_version :: string
  col_inputs :: "object list"
  col_status :: JobStatus
  col_progress :: real
  col_total_items :: int
  col_completed :: int
  col_result_url :: "string option"
  col_error_msg :: "string option"
  col_created_at :: Time
  col_updated_at :: Time
  col_completed_at :: "Time option"

text \<open>
  The world the batch worker acts on: the table, the calls made to
  \<open>MinIOStoreInterface.UploadResults\<close> (job id and manifest, in call order), and the
  clock read by \<open>time.Now()\<close>, which advances with every statement sent to the database.
  A manifest slot is \<open>None\<close> while it still holds the \<open>nil\<close> map that \<open>make\<close> put there.
\<close>

record ResultData =
  rd_input :: object
  rd_prediction :: "object option"
  rd_latency_ms :: int
  rd_error :: "string option"

type_synonym Manifest = "ResultData option list"

record World =
  jobs :: "string \<rightharpoonup> JobRow"
  upload_calls :: "(string \<times> Manifest) list"
  clock :: Time

text \<open>
  Every store method takes, as its first argument, the error the database driver returns
  for its statement (\<open>None\<close> when the statement executes), and returns the Go \<open>error\<close>
  (\<open>None\<close> for \<open>nil\<close>) with the new world. \<open>CreateJob\<close> is a plain \<open>INSERT\<close>: it fails when
  the primary key \<open>id\<close> is already in the table or a value is longer than its
  \<open>VARCHAR\<close> column allows. (\<open>json.Marshal\<close> of inputs that were decoded from JSON does
  not fail.)
\<close>

definition CreateJob :: "string option \<Rightarrow> BatchJob \<Rightarrow> World \<Rightarrow> string option \<times> World" where
  "CreateJob driver_err job w =
     (case driver_err of
        Some e \<Rightarrow> (Some (''failed to create job: '' @ e), w)
      | None \<Rightarrow>
          if ID job \<in> dom (jobs w) then
            (Some ''failed to create job: pq: duplicate key value violates unique constraint'', w)
          else if length (ID job) > 255 \<or> length (Model job) > 255 then
            (Some ''failed to create job: pq: value too long for type character varying(255)'', w)
          else if length (Version job) > 50 then
            (Some ''failed to create job: pq: value too long for type character varying(50)'', w)
          else
            (None, w\<lparr>jobs := (jobs w)(ID job \<mapsto>
                      \<lparr>col_model = Model job, col_version = Version job, col_inputs = Inputs job,
                       col_status = Status job, col_progress = 0, col_total_items = TotalItems job,
                       col_completed = 0, col_result_url = None, col_error_msg = None,
                       col_created_at = CreatedAt job, col_updated_at = UpdatedAt job,
                       col_completed_at = None\<rparr>),
                    clock := clock w + 1\<rparr>))"

text \<open>An \<open>UPDATE ... WHERE id = $n\<close> that matches no row changes nothing and is no error.\<close>

definition update_row :: "string \<Rightarrow> (JobRow \<Rightarrow> JobRow) \<Rightarrow> World \<Rightarrow> World" where
  "update_row jobID f w =
     (case jobs w jobID of
        None \<Rightarrow> w\<lparr>clock := clock w + 1\<rparr>
      | Some row \<Rightarrow> w\<lparr>jobs := (jobs w)(jobID \<mapsto> f row), clock := clock w + 1\<rparr>)"

definition UpdateJobProgress ::
  "string option \<Rightarrow> string \<Rightarrow> int \<Rightarrow> real \<Rightarrow> World \<Rightarrow> string option \<times> World" where
  "UpdateJobProgress driver_err jobID completed progress w =
     (case driver_err of
        Some e \<Rightarrow> (Some (''failed to update job progress: '' @ e), w)
      | None \<Rightarrow>
          (None, update_row jobID
             (\<lambda>row. row\<lparr>col_completed := completed, col_progress := progress,
                        col_updated_at := clock w\<rparr>) w))"

text \<open>The \<open>UPDATE\<close> statement of \<open>UpdateJobStatus\<close> with its parameters $1 to $6.\<close>

definition update_status_stmt ::
  "JobStatus \<Rightarrow> string \<Rightarrow> string \<Rightarrow> Time \<Rightarrow> Time option \<Rightarrow> string \<Rightarrow> World \<Rightarrow> World" where
  "update_status_stmt status resultURL errorMsg updatedAt completedAt jobID w =
     update_row jobID
       (\<lambda>row. row\<lparr>col_status := status, col_result_url := Some resultURL,
                  col_error_msg := Some errorMsg, col_updated_at := updatedAt,
                  col_completed_at := completedAt\<rparr>) w"

definition UpdateJobStatus ::
  "string option \<Rightarrow> string \<Rightarrow> JobStatus \<Rightarrow> string \<Rightarrow> string \<Rightarrow> World \<Rightarrow> string option \<times> World" where
  "UpdateJobStatus driver_err jobID status resultURL errorMsg w =
     (let completedAt = (if status = StatusCompleted \<or> status = StatusFailed
                         then Some (clock w) else None)
      in case driver_err of
           Some e \<Rightarrow> (Some (''failed to update job status: '' @ e), w)
         | None \<Rightarrow>
             (None, update_status_stmt status resultURL errorMsg (clock w) completedAt jobID w))"

definition GetJob :: "string \<Rightarrow> World \<Rightarrow> string + BatchJob" where
  "GetJob jobID w =
     (case jobs w jobID of
        None \<Rightarrow> Inl (''job not found: '' @ jobID)
      | Some row \<Rightarrow>
          Inr \<lparr>ID = jobID, Model = col_model row, Version = col_version row,
               Inputs = col_inputs row, Status = col_status row, Progress = col_progress row,
               TotalItems = col_total_items row, Completed = col_completed row,
               ResultURL = (case col_result_url row of Some u \<Rightarrow> u | None \<Rightarrow> []),
               ErrorMsg = (case col_error_msg row of Some m \<Rightarrow> m | None \<Rightarrow> []),
               CreatedAt = col_created_at row, UpdatedAt = col_updated_at row,
               CompletedAt = col_completed_at row\<rparr>)"

section \<open>Batch worker: object store (storage/minio.go)\<close>

text \<open>
  The MinIO client as \<open>UploadResults\<close> uses it: the error of \<open>PutObject\<close> (\<open>None\<close> for
  \<open>nil\<close>), and \<open>PresignedGetObject\<close> as a function of bucket, object name and
  \<open>expires\<close>, a \<open>time.Duration\<close>, giving an error or the URL.
\<close>

record MinIOStore =
  bucket :: string
  put_object_err :: "string option"
  PresignedGetObject :: "string \<Rightarrow> string \<Rightarrow> Duration \<Rightarrow> string + string"

text \<open>
  \<open>MinIOStore.UploadResults\<close>. The fourth argument of the presigning call is the untyped
  constant \<open>7*24*3600\<close>, converted to the parameter's type \<open>time.Duration\<close>.
\<close>

definition MinIOStore_UploadResults ::
  "MinIOStore \<Rightarrow> string option \<Rightarrow> string \<Rightarrow> Manifest \<Rightarrow> string + string" where
  "MinIOStore_UploadResults s marshal_indent_err jobID manifest =
     (case marshal_indent_err of
        Some e \<Rightarrow> Inl (''failed to marshal results: '' @ e)
      | None \<Rightarrow>
          let objectName = ''results/'' @ jobID @ ''.json''
          in case put_object_err s of
               Some e \<Rightarrow> Inl (''failed to upload results: '' @ e)
             | None \<Rightarrow>
                 (case PresignedGetObject s (bucket s) objectName (7 * 24 * 3600) of
                    Inl e \<Rightarrow> Inl (''failed to generate presigned URL: '' @ e)
                  | Inr url \<Rightarrow> Inr url))"

section \<open>Batch worker: worker pool (worker/pool.go)\<close>

record InferenceResult =
  Input :: object
  Prediction :: "object option"
  Latency :: int
  Error :: string

text \<open>
  What one call of \<open>processInference\<close> meets, in the order of its checks: \<open>json.Marshal\<close>
  fails; \<open>http.NewRequestWithContext\<close> fails; \<open>httpClient.Do\<close> fails after so many
  milliseconds; or the orchestrator answers with a status code and a body that decodes
  (possibly to a \<open>nil\<close> map) or does not, after so many milliseconds.
\<close>

datatype CallOutcome =
    MarshalFailed string
  | NewRequestFailed string
  | DoFailed string int
  | Responded int "string + object option" int

definition StatusOK :: int where "StatusOK = 200"

fun processInference :: "object \<Rightarrow> CallOutcome \<Rightarrow> InferenceResult" where
  "processInference input (MarshalFailed e) =
     \<lparr>Input = input, Prediction = None, Latency = 0,
      Error = ''failed to marshal request: '' @ e\<rparr>"
| "processInference input (NewRequestFailed e) =
     \<lparr>Input = input, Prediction = None, Latency = 0,
      Error = ''failed to create request: '' @ e\<rparr>"
| "processInference input (DoFailed e ms) =
     \<lparr>Input = input, Prediction = None, Latency = ms,
      Error = ''request failed: '' @ e\<rparr>"
| "processInference input (Responded code body ms) =
     (if code \<noteq> StatusOK then
        \<lparr>Input = input, Prediction = None, Latency = ms,
         Error = ''inference failed with status '' @ fmt_d code\<rparr>
      else case body of
             Inl e \<Rightarrow> \<lparr>Input = input, Prediction = None, Latency = ms,
                       Error = ''failed to decode response: '' @ e\<rparr>
           | Inr prediction \<Rightarrow> \<lparr>Input = input, Prediction = prediction, Latency = ms,
                                Error = []\<rparr>)"

text \<open>
  The pool: \<open>pool_size\<close> is the field \<open>size\<close>, the number of workers that \<open>ProcessJob\<close>
  starts (none when it is zero or negative; \<open>main\<close> takes it from \<open>WORKER_POOL_SIZE\<close>
  unchecked). The two stores are reached through the environment below.
\<close>

record Pool =
  pool_size :: int
  orchestratorURL :: string

text \<open>
  One run of \<open>ProcessJob\<close> depends on its surroundings through: the driver errors of its
  three \<open>UpdateJobStatus\<close> statements (to \<open>processing\<close>, to \<open>failed\<close> after a failed upload,
  and the final one) and of each \<open>UpdateJobProgress\<close> (by completed count); what
  \<open>UploadResults\<close> returns (\<open>Inl\<close> its error, \<open>Inr\<close> the URL); and the schedule: the
  order in which the workers' results reach \<open>resultChan\<close>, each with the index of its
  work item and what the call met. Which schedules a pool of a given width produces is
  the subject of \<open>pool_schedule\<close> below.
\<close>

record Env =
  set_processing_err :: "string option"
  progress_err :: "int \<Rightarrow> string option"
  upload_result :: "string + string"
  set_failed_err :: "string option"
  set_final_err :: "string option"
  schedule :: "(nat \<times> CallOutcome) list"

text \<open>
  The worker: it receives \<open>(index, input)\<close> with \<open>input = job.Inputs[index]\<close> from the
  dispatcher and sends \<open>(index, processInference input)\<close>. An index that was never
  dispatched yields nothing.
\<close>

definition worker :: "BatchJob \<Rightarrow> nat \<times> CallOutcome \<Rightarrow> (nat \<times> InferenceResult) option" where
  "worker job a =
     (case a of (index, outcome) \<Rightarrow>
        if index < length (Inputs job)
        then Some (index, processInference (Inputs job ! index) outcome)
        else None)"

text \<open>What reaches \<open>resultChan\<close>: nothing when the pool starts no worker.\<close>

definition resultChan ::
  "Pool \<Rightarrow> BatchJob \<Rightarrow> (nat \<times> CallOutcome) list \<Rightarrow> (nat \<times> InferenceResult) list" where
  "resultChan p job sched =
     (if pool_size p \<le> 0 then [] else List.map_filter (worker job) sched)"

text \<open>
  The order in which a pool of \<open>width\<close> workers completes the work items. \<open>inputChan\<close>
  is buffered with room for every item, so the dispatcher puts all indices into it in
  order; \<open>pending\<close> is what is still in the channel and \<open>inflight\<close> are the items that
  workers hold. A free worker receives the head of the channel; otherwise one of the
  items in flight completes, the scheduler's next pick saying which (the first one when
  the picks are used up); when no item is in flight and no worker can receive one, the
  workers have returned. A worker that receives later than it could completes nothing
  that an eager one could not, so every completion order of the code is one of these.
\<close>

function fan_out :: "nat \<Rightarrow> nat list \<Rightarrow> nat list \<Rightarrow> nat list \<Rightarrow> nat list" where
  "fan_out width picks pending inflight =
     (if length inflight < width \<and> pending \<noteq> [] then
        fan_out width picks (tl pending) (inflight @ [hd pending])
      else if inflight = [] then []
      else let k = (case picks of [] \<Rightarrow> 0 | p # ps \<Rightarrow> p mod length inflight)
           in inflight ! k
              # fan_out width (tl picks) pending (take k inflight @ drop (Suc k) inflight))"
  by pat_completeness auto
termination
proof (relation "measure (\<lambda>(width, picks, pending, inflight). 2 * length pending + length inflight)")
  show "wf (measure (\<lambda>(width, picks, pending, inflight). 2 * length pending + length inflight))"
    by simp
next
  fix width :: nat and picks pending inflight :: "nat list"
  assume "length inflight < width \<and> pending \<noteq> []"
  then show "((width, picks, tl pending, inflight @ [hd pending]), (width, picks, pending, inflight))
      \<in> measure (\<lambda>(width, picks, pending, inflight). 2 * length pending + length inflight)"
    by (cases pending) simp_all
next
  fix width :: nat and picks pending inflight :: "nat list" and k :: nat
  assume "inflight \<noteq> []"
     and k: "k = (case picks of [] \<Rightarrow> 0 | p # ps \<Rightarrow> p mod length inflight)"
  then have "k < length inflight"
    by (cases picks) simp_all
  then show "((width, tl picks, pending, take k inflight @ drop (Suc k) inflight),
              (width, picks, pending, inflight))
      \<in> measure (\<lambda>(width, picks, pending, inflight). 2 * length pending + length inflight)"
    by simp
qed

declare fan_out.simps [simp del]

text \<open>
  The schedules of a pool: the completion order of its workers under some picks of the
  scheduler, each item with what its call met; cut after \<open>k\<close> results when the context is
  cancelled (\<open>cancelled = Some k\<close>: the results that still reach the collector are the
  start of a full run), and whole when it is not (\<open>cancelled = None\<close>).
\<close>

definition pool_schedule ::
  "Pool \<Rightarrow> nat list \<Rightarrow> (nat \<Rightarrow> CallOutcome) \<Rightarrow> nat option \<Rightarrow> BatchJob \<Rightarrow> (nat \<times> CallOutcome) list" where
  "pool_schedule p picks outcome cancelled job =
     (let order = fan_out (nat (pool_size p)) picks [0..<length (Inputs job)] []
      in map (\<lambda>i. (i, outcome i))
           (case cancelled of None \<Rightarrow> order | Some k \<Rightarrow> take k order))"

text \<open>
  The local variables of the collection loop, with the world. The counters are Go \<open>int\<close>s
  that stay between 0 and the number of inputs; \<open>completed\<close> is positive where it is divided,
  and the divisor \<open>max(1, TotalItems/10)\<close> is at least 1, so Go's truncating \<open>/\<close> and \<open>%\<close>
  agree with \<open>div\<close> and \<open>mod\<close>. The progress fraction is a \<open>float64\<close> in the source and a
  real here (for \<open>TotalItems = 0\<close> the source computes an infinity, HOL the value 0); it
  is only stored.
\<close>

record Collector =
  results :: Manifest
  completed :: int
  errorCount :: int
  world :: World

definition collect_step :: "Env \<Rightarrow> BatchJob \<Rightarrow> nat \<times> InferenceResult \<Rightarrow> Collector \<Rightarrow> Collector" where
  "collect_step env job r c =
     (case r of (index, result) \<Rightarrow>
        let completed' = completed c + 1;
            progress = real_of_int completed' / real_of_int (TotalItems job);
            resultData = \<lparr>rd_input = Input result, rd_prediction = Prediction result,
                          rd_latency_ms = Latency result,
                          rd_error = (if Error result \<noteq> [] then Some (Error result) else None)\<rparr>;
            errorCount' = (if Error result \<noteq> [] then errorCount c + 1 else errorCount c);
            results' = (results c)[index := Some resultData];
            world' = (if completed' mod max 1 (TotalItems job div 10) = 0
                         \<or> completed' = TotalItems job
                      then snd (UpdateJobProgress (progress_err env completed') (ID job)
                                  completed' progress (world c))
                      else world c)
        in \<lparr>results = results', completed = completed', errorCount = errorCount',
            world = world'\<rparr>)"

primrec collect :: "Env \<Rightarrow> BatchJob \<Rightarrow> (nat \<times> InferenceResult) list \<Rightarrow> Collector \<Rightarrow> Collector" where
  "collect env job [] c = c"
| "collect env job (r # rs) c = collect env job rs (collect_step env job r c)"

definition UploadResults :: "Env \<Rightarrow> string \<Rightarrow> Manifest \<Rightarrow> World \<Rightarrow> (string + string) \<times> World" where
  "UploadResults env jobID manifest w =
     (upload_result env, w\<lparr>upload_calls := upload_calls w @ [(jobID, manifest)]\<rparr>)"

definition error_summary :: "int \<Rightarrow> int \<Rightarrow> string" where
  "error_summary e n = fmt_d e @ ''/'' @ fmt_d n @ '' items failed''"

text \<open>
  Fan-out and collection (the channels, the workers and the loop over \<open>resultChan\<close>),
  started in world \<open>w1\<close>: the loop's variables when \<open>resultChan\<close> is closed.
\<close>

definition drain :: "Pool \<Rightarrow> Env \<Rightarrow> BatchJob \<Rightarrow> World \<Rightarrow> Collector" where
  "drain p env job w1 =
     collect env job (resultChan p job (schedule env))
       \<lparr>results = replicate (length (Inputs job)) None, completed = 0, errorCount = 0,
        world = w1\<rparr>"

definition ProcessJob :: "Pool \<Rightarrow> Env \<Rightarrow> BatchJob \<Rightarrow> World \<Rightarrow> string option \<times> World" where
  "ProcessJob p env job w =
     (case UpdateJobStatus (set_processing_err env) (ID job) StatusProcessing [] [] w of
        (Some err, w1) \<Rightarrow> (Some (''failed to update job status: '' @ err), w1)
      | (None, w1) \<Rightarrow>
          let c = drain p env job w1
          in case UploadResults env (ID job) (results c) (world c) of
               (Inl err, w2) \<Rightarrow>
                 (Some (''failed to upload results: '' @ err),
                  snd (UpdateJobStatus (set_failed_err env) (ID job) StatusFailed [] err w2))
             | (Inr resultURL, w2) \<Rightarrow>
                 let finalStatus = (if errorCount c > 0 \<and> errorCount c = TotalItems job
                                    then StatusFailed else StatusCompleted);
                     errorMsg = (if errorCount c > 0
                                 then error_summary (errorCount c) (TotalItems job) else [])
                 in case UpdateJobStatus (set_final_err env) (ID job) finalStatus resultURL errorMsg w2 of
                      (Some err, w3) \<Rightarrow> (Some (''failed to update final status: '' @ err), w3)
                    | (None, w3) \<Rightarrow> (None, w3))"

text \<open>
  The number of work items whose result reached the collector carrying an error, and the
  world in which the collection starts when the first status update is executed.
\<close>

definition errored :: "Pool \<Rightarrow> BatchJob \<Rightarrow> (nat \<times> CallOutcome) list \<Rightarrow> int" where
  "errored p job sched =
     int (length (filter (\<lambda>r. Error (snd r) \<noteq> []) (resultChan p job sched)))"

text \<open>Slot \<open>i\<close> of a manifest holds a result for input \<open>i\<close> of the job.\<close>

definition slot_ok :: "BatchJob \<Rightarrow> nat \<Rightarrow> ResultData option \<Rightarrow> bool" where
  "slot_ok job i s \<longleftrightarrow> (\<exists>rd. s = Some rd \<and> rd_input rd = Inputs job ! i)"

definition processing_world :: "BatchJob \<Rightarrow> World \<Rightarrow> World" where
  "processing_world job w =
     update_status_stmt StatusProcessing [] [] (clock w) None (ID job) w"

section \<open>Batch worker: Kafka consumer (consumer/kafka.go)\<close>

text \<open>
  A delivery from \<open>claim.Messages()\<close>: a \<open>nil\<close> message, or a message with its offset and
  its value, which is JSON text (\<open>Some\<close> of what it denotes) or not (\<open>None\<close>). With each
  delivery come the surroundings of its handling: the clock reading for the new job
  record, the driver error of the \<open>INSERT\<close>, and the environment of the pool's run.
\<close>

record Delivery =
  is_nil :: bool
  offset :: int
  msg_value :: "json option"
  received_at :: Time
  create_err :: "string option"
  pool_env :: Env

text \<open>\<open>json.Unmarshal\<close> into a \<open>map[string]interface{}\<close>: only an object or \<open>null\<close> is accepted.\<close>

definition unmarshal_map :: "json option \<Rightarrow> string + object" where
  "unmarshal_map v =
     (case v of
        None \<Rightarrow> Inl ''invalid character''
      | Some (JObj kvs) \<Rightarrow> Inr kvs
      | Some JNull \<Rightarrow> Inr []
      | Some _ \<Rightarrow> Inl ''json: cannot unmarshal into Go value of type map[string]interface {}'')"

text \<open>The type assertions \<open>m[k].(string)\<close> and \<open>m[k].([]interface{})\<close> with the result discarded on failure.\<close>

definition as_string :: "object \<Rightarrow> string \<Rightarrow> string" where
  "as_string m k = (case map_of m k of Some (JStr s) \<Rightarrow> s | _ \<Rightarrow> [])"

definition as_slice :: "object \<Rightarrow> string \<Rightarrow> json list" where
  "as_slice m k = (case map_of m k of Some (JArr xs) \<Rightarrow> xs | _ \<Rightarrow> [])"

definition as_map :: "json \<Rightarrow> object option" where
  "as_map v = (case v of JObj kvs \<Rightarrow> Some kvs | _ \<Rightarrow> None)"

record Session =
  marked :: "int list"
  sworld :: World

text \<open>The body of the loop of \<open>ConsumeClaim\<close> for one delivery; \<open>p\<close> is the handler's pool.\<close>

definition handle_message :: "Pool \<Rightarrow> Delivery \<Rightarrow> Session \<Rightarrow> Session" where
  "handle_message p d s =
     (if is_nil d then s
      else case unmarshal_map (msg_value d) of
             Inl err \<Rightarrow> s\<lparr>marked := marked s @ [offset d]\<rparr>
           | Inr jobMsg \<Rightarrow>
               let jobID = as_string jobMsg ''job_id'';
                   model = as_string jobMsg ''model'';
                   version = as_string jobMsg ''version'';
                   inputsRaw = as_slice jobMsg ''inputs'';
                   inputs = List.map_filter as_map inputsRaw;
                   job = \<lparr>ID = jobID, Model = model, Version = version, Inputs = inputs,
                          Status = StatusPending, Progress = 0,
                          TotalItems = int (length inputs), Completed = 0,
                          ResultURL = [], ErrorMsg = [],
                          CreatedAt = received_at d, UpdatedAt = received_at d,
                          CompletedAt = None\<rparr>
               in case CreateJob (create_err d) job (sworld s) of
                    (Some err, w1) \<Rightarrow> s\<lparr>marked := marked s @ [offset d], sworld := w1\<rparr>
                  | (None, w1) \<Rightarrow>
                      s\<lparr>marked := marked s @ [offset d],
                        sworld := snd (ProcessJob p (pool_env d) job w1)\<rparr>)"

text \<open>
  \<open>ConsumeClaim\<close> on the deliveries it receives before the channel closes or the session
  ends.
\<close>

primrec ConsumeClaim :: "Pool \<Rightarrow> Delivery list \<Rightarrow> Session \<Rightarrow> Session" where
  "ConsumeClaim p [] s = s"
| "ConsumeClaim p (d # ds) s = ConsumeClaim p ds (handle_message p d s)"

section \<open>Model router: circuit breaker\<close>

text \<open>
  Each backend owns a \<open>gobreaker.CircuitBreaker\<close> (library \<open>sony/gobreaker\<close> v0.5.0),
  built by \<open>RegisterBackend\<close> with \<open>MaxRequests = 3\<close>, \<open>Interval = 10 s\<close>, \<open>Timeout = 30 s\<close>
  and the \<open>ReadyToTrip\<close> closure of the source. The settings name no \<open>IsSuccessful\<close>, so
  the library's default decides what a failure is: a request has succeeded exactly when
  the error it returned is \<open>nil\<close>. The library's counters and state machine are written
  out below as the library documents them.
\<close>

datatype State = StateClosed | StateHalfOpen | StateOpen

record Counts =
  Requests :: nat
  TotalSuccesses :: nat
  TotalFailures :: nat
  ConsecutiveSuccesses :: nat
  ConsecutiveFailures :: nat

definition clear :: Counts where
  "clear = \<lparr>Requests = 0, TotalSuccesses = 0, TotalFailures = 0,
             ConsecutiveSuccesses = 0, ConsecutiveFailures = 0\<rparr>"

definition onRequest :: "Counts \<Rightarrow> Counts" where
  "onRequest c = c\<lparr>Requests := Requests c + 1\<rparr>"

definition onSuccess :: "Counts \<Rightarrow> Counts" where
  "onSuccess c = c\<lparr>TotalSuccesses := TotalSuccesses c + 1,
                    ConsecutiveSuccesses := ConsecutiveSuccesses c + 1,
                    ConsecutiveFailures := 0\<rparr>"

definition onFailure :: "Counts \<Rightarrow> Counts" where
  "onFailure c = c\<lparr>TotalFailures := TotalFailures c + 1,
                    ConsecutiveFailures := ConsecutiveFailures c + 1,
                    ConsecutiveSuccesses := 0\<rparr>"

text \<open>
  The closure given as \<open>ReadyToTrip\<close>. The ratio is a \<open>float64\<close> in the source, a real
  here: for 32-bit counts the rounding of the quotient and of the literal \<open>0.6\<close> never
  changes the comparison, and with no request both sides of the conjunction are false.
\<close>

definition ReadyToTrip :: "Counts \<Rightarrow> bool" where
  "ReadyToTrip counts =
     (let failureRatio = real (TotalFailures counts) / real (Requests counts)
      in Requests counts \<ge> 3 \<and> failureRatio \<ge> 6 / 10)"

definition MaxRequests :: nat where "MaxRequests = 3"
definition Interval :: Duration where "Interval = 10 * Second"
definition Timeout :: Duration where "Timeout = 30 * Second"

text \<open>\<open>expiry = None\<close> is the zero \<open>time.Time\<close>.\<close>

record CircuitBreaker =
  name :: string
  state :: State
  generation :: nat
  counts :: Counts
  expiry :: "Time option"

definition toNewGeneration :: "CircuitBreaker \<Rightarrow> Time \<Rightarrow> CircuitBreaker" where
  "toNewGeneration cb now =
     cb\<lparr>generation := generation cb + 1, counts := clear,
        expiry := (case state cb of
                     StateClosed \<Rightarrow> (if Interval = 0 then None else Some (now + Interval))
                   | StateOpen \<Rightarrow> Some (now + Timeout)
                   | StateHalfOpen \<Rightarrow> None)\<rparr>"

definition setState :: "CircuitBreaker \<Rightarrow> State \<Rightarrow> Time \<Rightarrow> CircuitBreaker" where
  "setState cb st now =
     (if state cb = st then cb else toNewGeneration (cb\<lparr>state := st\<rparr>) now)"

definition currentState :: "CircuitBreaker \<Rightarrow> Time \<Rightarrow> CircuitBreaker" where
  "currentState cb now =
     (case state cb of
        StateClosed \<Rightarrow>
          (case expiry cb of
             Some e \<Rightarrow> (if e < now then toNewGeneration cb now else cb)
           | None \<Rightarrow> cb)
      | StateOpen \<Rightarrow>
          (case expiry cb of
             Some e \<Rightarrow> (if e < now then setState cb StateHalfOpen now else cb)
           | None \<Rightarrow> setState cb StateHalfOpen now)
      | StateHalfOpen \<Rightarrow> cb)"

definition ErrOpenState :: string where "ErrOpenState = ''circuit breaker is open''"
definition ErrTooManyRequests :: string where "ErrTooManyRequests = ''too many requests''"

definition beforeRequest :: "CircuitBreaker \<Rightarrow> Time \<Rightarrow> (string + nat) \<times> CircuitBreaker" where
  "beforeRequest cb now =
     (let cb1 = currentState cb now
      in if state cb1 = StateOpen then (Inl ErrOpenState, cb1)
         else if state cb1 = StateHalfOpen \<and> Requests (counts cb1) \<ge> MaxRequests
         then (Inl ErrTooManyRequests, cb1)
         else (Inr (generation cb1), cb1\<lparr>counts := onRequest (counts cb1)\<rparr>))"

definition afterRequest :: "CircuitBreaker \<Rightarrow> nat \<Rightarrow> bool \<Rightarrow> Time \<Rightarrow> CircuitBreaker" where
  "afterRequest cb before success now =
     (let cb1 = currentState cb now
      in if generation cb1 \<noteq> before then cb1
         else if success then
           (case state cb1 of
              StateClosed \<Rightarrow> cb1\<lparr>counts := onSuccess (counts cb1)\<rparr>
            | StateHalfOpen \<Rightarrow>
                (let cb2 = cb1\<lparr>counts := onSuccess (counts cb1)\<rparr>
                 in if ConsecutiveSuccesses (counts cb2) \<ge> MaxRequests
                    then setState cb2 StateClosed now else cb2)
            | StateOpen \<Rightarrow> cb1)
         else
           (case state cb1 of
              StateClosed \<Rightarrow>
                (let cb2 = cb1\<lparr>counts := onFailure (counts cb1)\<rparr>
                 in if ReadyToTrip (counts cb2) then setState cb2 StateOpen now else cb2)
            | StateHalfOpen \<Rightarrow> setState cb1 StateOpen now
            | StateOpen \<Rightarrow> cb1))"

section \<open>Model router: registry and routing (router/router.go)\<close>

text \<open>Field \<open>Breaker\<close> is the struct's \<open>CircuitBreaker\<close>.\<close>

record Backend =
  URL :: string
  Breaker :: CircuitBreaker
  HealthStatus :: bool
  LastCheck :: Time
  AvgLatency :: Duration

text \<open>\<open>backends\<close>: model, then version, then the backends in registration order.\<close>

record ModelRouter =
  backends :: "string \<rightharpoonup> (string \<rightharpoonup> Backend list)"

definition NewModelRouter :: ModelRouter where
  "NewModelRouter = \<lparr>backends = Map.empty\<rparr>"

definition lookup :: "ModelRouter \<Rightarrow> string \<Rightarrow> string \<Rightarrow> Backend list" where
  "lookup r model version =
     (case backends r model of
        None \<Rightarrow> []
      | Some versions \<Rightarrow> (case versions version of None \<Rightarrow> [] | Some bs \<Rightarrow> bs))"

definition RegisterBackend :: "string \<Rightarrow> string \<Rightarrow> string \<Rightarrow> Time \<Rightarrow> ModelRouter \<Rightarrow> ModelRouter" where
  "RegisterBackend model version url now r =
     (let versions = (case backends r model of None \<Rightarrow> Map.empty | Some vs \<Rightarrow> vs);
          cb = toNewGeneration
                 \<lparr>name = model @ ''-'' @ version, state = StateClosed, generation = 0,
                  counts = clear, expiry = None\<rparr> now;
          backend = \<lparr>URL = url, Breaker = cb, HealthStatus = True, LastCheck = now,
                     AvgLatency = 0\<rparr>;
          old = (case versions version of None \<Rightarrow> [] | Some bs \<Rightarrow> bs)
      in r\<lparr>backends := (backends r)(model \<mapsto> versions(version \<mapsto> old @ [backend]))\<rparr>)"

text \<open>
  What one call of \<open>executeRequest\<close> meets: \<open>json.Marshal\<close> fails; \<open>http.NewRequest\<close> fails;
  the transport fails; or the backend answers with a status code and a body (its text,
  and what decoding it as a JSON object gives), the call having taken \<open>latency\<close> and ended
  at \<open>finished\<close>.
\<close>

datatype BackendReply =
    MarshalError string
  | NewRequestError string
  | TransportError string
  | Reply int string "string + object"

record Call =
  reply :: BackendReply
  started :: Time
  latency :: Duration

definition executeRequest :: "Call \<Rightarrow> Backend \<Rightarrow> (string + object) \<times> Backend" where
  "executeRequest call backend =
     (case reply call of
        MarshalError e \<Rightarrow> (Inl e, backend)
      | NewRequestError e \<Rightarrow> (Inl e, backend)
      | TransportError e \<Rightarrow> (Inl e, backend\<lparr>HealthStatus := False\<rparr>)
      | Reply code body decoded \<Rightarrow>
          if code \<noteq> StatusOK then
            (Inl (''backend returned status '' @ fmt_d code @ '': '' @ body), backend)
          else case decoded of
                 Inl e \<Rightarrow> (Inl e, backend)
               | Inr result \<Rightarrow>
                   (Inr result,
                    backend\<lparr>HealthStatus := True, AvgLatency := latency call,
                            LastCheck := started call + latency call\<rparr>))"

text \<open>
  \<open>CircuitBreaker.Execute\<close> around \<open>executeRequest\<close>: the request runs only if
  \<open>beforeRequest\<close> admits it, and its error decides between success and failure.
\<close>

definition Execute :: "Call \<Rightarrow> Backend \<Rightarrow> (string + object) \<times> Backend" where
  "Execute call backend =
     (case beforeRequest (Breaker backend) (started call) of
        (Inl err, cb1) \<Rightarrow> (Inl err, backend\<lparr>Breaker := cb1\<rparr>)
      | (Inr gen, cb1) \<Rightarrow>
          (case executeRequest call (backend\<lparr>Breaker := cb1\<rparr>) of
             (result, backend1) \<Rightarrow>
               (result,
                backend1\<lparr>Breaker :=
                   afterRequest cb1 gen (case result of Inl err \<Rightarrow> False | Inr v \<Rightarrow> True)
                     (started call + latency call)\<rparr>)))"

text \<open>\<open>selectBackend\<close>: \<open>rand.Intn(len(backends))\<close>, with \<open>rnd\<close> the random draw.\<close>

definition selectBackend :: "nat \<Rightarrow> Backend list \<Rightarrow> nat" where
  "selectBackend rnd bs = rnd mod length bs"

definition RouteRequest ::
  "nat \<Rightarrow> Call \<Rightarrow> string \<Rightarrow> string \<Rightarrow> ModelRouter \<Rightarrow> (string + object) \<times> ModelRouter" where
  "RouteRequest rnd call model version r =
     (case backends r model of
        None \<Rightarrow> (Inl (''model not found: '' @ model), r)
      | Some versions \<Rightarrow>
          (case versions version of
             None \<Rightarrow> (Inl (''version not found: '' @ model @ ''/'' @ version), r)
           | Some bs \<Rightarrow>
               if length bs = 0 then
                 (Inl (''version not found: '' @ model @ ''/'' @ version), r)
               else
                 let i = selectBackend rnd bs
                 in case Execute call (bs ! i) of
                      (result, backend1) \<Rightarrow>
                        (result,
                         r\<lparr>backends :=
                             (backends r)(model \<mapsto> versions(version \<mapsto> bs[i := backend1]))\<rparr>)))"

section \<open>Request binding and HTTP handlers\<close>

text \<open>
  \<open>c.ShouldBindJSON(&req)\<close> first decodes the body into the request struct with
  \<open>encoding/json\<close> and then checks the \<open>binding:"required"\<close> tags. The decoding is the
  library's and is taken as given: a handler is applied to what the decoding yields,
  its error or the struct. In the struct, a field to which the body binds nothing, or
  binds \<open>null\<close>, is left at its zero value: the empty string, or \<open>nil\<close> for a map and
  for a slice, here \<open>None\<close>; an array, also the empty one, gives a slice that is not
  \<open>nil\<close>, and a \<open>null\<close> element of it a \<open>nil\<close> map. The check of \<open>required\<close> is that of gin's
  validator: a string must be non-empty, a map or a slice must be non-\<open>nil\<close>.
\<close>

definition required_failed :: "string \<Rightarrow> string" where
  "required_failed field = ''Field validation for '' @ field @ '' failed on the required tag''"

record InferenceRequest =
  ir_Model :: string
  ir_Version :: string
  ir_Input :: "object option"

definition bind_InferenceRequest :: "string + InferenceRequest \<Rightarrow> string + InferenceRequest" where
  "bind_InferenceRequest decoded =
     (case decoded of
        Inl e \<Rightarrow> Inl e
      | Inr req \<Rightarrow>
          if ir_Model req = [] then Inl (required_failed ''Model'')
          else if ir_Input req = None then Inl (required_failed ''Input'')
          else Inr req)"

record BatchInferenceRequest =
  br_Model :: string
  br_Version :: string
  br_Inputs :: "object option list option"

definition bind_BatchInferenceRequest ::
  "string + BatchInferenceRequest \<Rightarrow> string + BatchInferenceRequest" where
  "bind_BatchInferenceRequest decoded =
     (case decoded of
        Inl e \<Rightarrow> Inl e
      | Inr req \<Rightarrow>
          if br_Model req = [] then Inl (required_failed ''Model'')
          else if br_Inputs req = None then Inl (required_failed ''Inputs'')
          else Inr req)"

text \<open>The router's \<open>RouteRequest\<close> struct.\<close>

record RouteRequestBody =
  rr_RequestID :: string
  rr_Model :: string
  rr_Version :: string
  rr_Input :: "object option"

definition bind_RouteRequest :: "string + RouteRequestBody \<Rightarrow> string + RouteRequestBody" where
  "bind_RouteRequest decoded =
     (case decoded of
        Inl e \<Rightarrow> Inl e
      | Inr req \<Rightarrow>
          if rr_Model req = [] then Inl (required_failed ''Model'')
          else if rr_Input req = None then Inl (required_failed ''Input'')
          else Inr req)"

text \<open>An HTTP response: its status code and its JSON body.\<close>

record HttpResponse =
  code :: int
  body :: json

definition StatusAccepted :: int where "StatusAccepted = 202"
definition StatusBadRequest :: int where "StatusBadRequest = 400"
definition StatusNotFound :: int where "StatusNotFound = 404"
definition StatusInternalServerError :: int where "StatusInternalServerError = 500"
definition StatusServiceUnavailable :: int where "StatusServiceUnavailable = 503"

subsection \<open>Model router: handlers/route.go\<close>

definition RouteInference ::
  "nat \<Rightarrow> Call \<Rightarrow> string + RouteRequestBody \<Rightarrow> ModelRouter \<Rightarrow> HttpResponse \<times> ModelRouter" where
  "RouteInference rnd call decoded r =
     (case bind_RouteRequest decoded of
        Inl err \<Rightarrow>
          (\<lparr>code = StatusBadRequest, body = JObj [(''error'', JStr ''invalid request'')]\<rparr>, r)
      | Inr req \<Rightarrow>
          let version = (if rr_Version req = [] then ''v1'' else rr_Version req)
          in case RouteRequest rnd call (rr_Model req) version r of
               (Inl err, r1) \<Rightarrow>
                 (\<lparr>code = StatusServiceUnavailable, body = JObj [(''error'', JStr err)]\<rparr>, r1)
             | (Inr result, r1) \<Rightarrow> (\<lparr>code = StatusOK, body = JObj result\<rparr>, r1))"

subsection \<open>API gateway: handlers/inference.go\<close>

text \<open>
  What a gateway handler takes from its surroundings: the UUID it draws, the current
  time as it is rendered in JSON, the milliseconds the call took, the errors of
  \<open>json.Marshal\<close>, of \<open>http.NewRequestWithContext\<close> and of the Kafka producer's
  \<open>SendMessage\<close> (\<open>None\<close> for \<open>nil\<close>).
\<close>

record GatewayEnv =
  new_uuid :: string
  timestamp :: string
  elapsed_ms :: int
  marshal_err :: "string option"
  new_request_err :: "string option"
  send_err :: "string option"

definition internal_error :: HttpResponse where
  "internal_error =
     \<lparr>code = StatusInternalServerError, body = JObj [(''error'', JStr ''internal error'')]\<rparr>"

text \<open>
  \<open>RealTimeInference\<close>. The handler sends the router the JSON of a map with exactly the
  four members \<open>request_id\<close>, \<open>model\<close>, \<open>version\<close> and \<open>input\<close>; these are the names of the
  four fields of the router's \<open>RouteRequest\<close>, so what the router decodes is the struct
  \<open>routerReq\<close> below. \<open>forward\<close> is the HTTP call to the router service's \<open>/v1/route\<close> with
  that body: \<open>Inl\<close> when the transport fails, else the router's response.
\<close>

definition RealTimeInference ::
  "GatewayEnv \<Rightarrow> (RouteRequestBody \<Rightarrow> string + HttpResponse) \<Rightarrow> string + InferenceRequest
     \<Rightarrow> HttpResponse" where
  "RealTimeInference env forward decoded =
     (case bind_InferenceRequest decoded of
        Inl err \<Rightarrow>
          \<lparr>code = StatusBadRequest,
           body = JObj [(''error'', JStr ''invalid request''), (''details'', JStr err)]\<rparr>
      | Inr req \<Rightarrow>
          let requestID = new_uuid env;
              version = (if ir_Version req = [] then ''v1'' else ir_Version req);
              routerReq = \<lparr>rr_RequestID = requestID, rr_Model = ir_Model req,
                           rr_Version = version, rr_Input = ir_Input req\<rparr>
          in if marshal_err env \<noteq> None then internal_error
             else if new_request_err env \<noteq> None then internal_error
             else case forward routerReq of
                    Inl err \<Rightarrow>
                      \<lparr>code = StatusServiceUnavailable,
                       body = JObj [(''error'', JStr ''service unavailable'')]\<rparr>
                  | Inr resp \<Rightarrow>
                      if code resp \<noteq> StatusOK then
                        \<lparr>code = code resp, body = JObj [(''error'', JStr ''inference failed'')]\<rparr>
                      else case unmarshal_map (Some (body resp)) of
                             Inl err \<Rightarrow> internal_error
                           | Inr routerResp \<Rightarrow>
                               \<lparr>code = StatusOK,
                                body = JObj [(''request_id'', JStr requestID),
                                             (''model'', JStr (ir_Model req)),
                                             (''version'', JStr version),
                                             (''prediction'', JObj routerResp),
                                             (''latency_ms'', JNum (real_of_int (elapsed_ms env)))]\<rparr>)"

text \<open>
  \<open>BatchInference\<close>, with the topic as the list of the messages (key and value) sent so
  far. The value is the JSON of the map \<open>job\<close>; a \<open>nil\<close> map among the inputs is written
  as \<open>null\<close>.
\<close>

definition json_of_map :: "object option \<Rightarrow> json" where
  "json_of_map m = (case m of None \<Rightarrow> JNull | Some kvs \<Rightarrow> JObj kvs)"

definition json_of_maps :: "object option list option \<Rightarrow> json" where
  "json_of_maps ms = (case ms of None \<Rightarrow> JNull | Some xs \<Rightarrow> JArr (map json_of_map xs))"

definition BatchInference ::
  "GatewayEnv \<Rightarrow> string + BatchInferenceRequest \<Rightarrow> (string \<times> json) list
     \<Rightarrow> HttpResponse \<times> (string \<times> json) list" where
  "BatchInference env decoded topic =
     (case bind_BatchInferenceRequest decoded of
        Inl err \<Rightarrow>
          (\<lparr>code = StatusBadRequest,
            body = JObj [(''error'', JStr ''invalid request''), (''details'', JStr err)]\<rparr>, topic)
      | Inr req \<Rightarrow>
          let version = (if br_Version req = [] then ''v1'' else br_Version req);
              jobID = new_uuid env;
              job = JObj [(''job_id'', JStr jobID), (''model'', JStr (br_Model req)),
                          (''version'', JStr version),
                          (''inputs'', json_of_maps (br_Inputs req)),
                          (''created_at'', JStr (timestamp env))]
          in if marshal_err env \<noteq> None then (internal_error, topic)
             else if send_err env \<noteq> None then
               (\<lparr>code = StatusInternalServerError,
                 body = JObj [(''error'', JStr ''failed to submit job'')]\<rparr>, topic)
             else
               (\<lparr>code = StatusAccepted,
                 body = JObj [(''job_id'', JStr jobID), (''status'', JStr ''pending''),
                              (''created_at'', JStr (timestamp env))]\<rparr>,
                topic @ [(jobID, job)]))"

section \<open>What a status reader sees, and the fixtures of the repository's tests\<close>

definition terminal_fields :: "string \<Rightarrow> World \<Rightarrow> (JobStatus \<times> string \<times> string) option" where
  "terminal_fields jobID w =
     (case GetJob jobID w of
        Inl err \<Rightarrow> None
      | Inr job \<Rightarrow> Some (Status job, ResultURL job, ErrorMsg job))"

definition data :: "real list \<Rightarrow> object" where
  "data xs = [(''data'', JArr (map JNum xs))]"

definition prediction_body :: object where
  "prediction_body = [(''prediction'', JArr [JNum (1 / 10), JNum (9 / 10)])]"

text \<open>The jobs of \<open>TestPool_ProcessJob_Success\<close> and \<open>TestPool_ProcessJob_PartialFailure\<close>.\<close>

definition test_job_1 :: BatchJob where
  "test_job_1 =
     \<lparr>ID = ''test-job-1'', Model = ''resnet18'', Version = ''v1'',
      Inputs = [data [1, 2, 3], data [4, 5, 6]],
      Status = StatusPending, Progress = 0, TotalItems = 2, Completed = 0,
      ResultURL = [], ErrorMsg = [], CreatedAt = 0, UpdatedAt = 0, CompletedAt = None\<rparr>"

definition test_job_2 :: BatchJob where
  "test_job_2 =
     \<lparr>ID = ''test-job-2'', Model = ''resnet18'', Version = ''v1'',
      Inputs = [data [1], data [2], data [3], data [4]],
      Status = StatusPending, Progress = 0, TotalItems = 4, Completed = 0,
      ResultURL = [], ErrorMsg = [], CreatedAt = 0, UpdatedAt = 0, CompletedAt = None\<rparr>"

text \<open>A job with no input, as the consumer builds it from a descriptor whose \<open>inputs\<close> is \<open>[]\<close>.\<close>

definition empty_job :: BatchJob where
  "empty_job =
     \<lparr>ID = ''empty-job'', Model = ''resnet18'', Version = ''v1'', Inputs = [],
      Status = StatusPending, Progress = 0, TotalItems = 0, Completed = 0,
      ResultURL = [], ErrorMsg = [], CreatedAt = 0, UpdatedAt = 0, CompletedAt = None\<rparr>"

text \<open>
  The surroundings the tests' mocks provide: every statement executes, and
  \<open>MockMinIOStore.UploadResults\<close> returns \<open>"http://minio/results/" + jobID + ".json"\<close>.
  The mock orchestrator answers 200 with a prediction, or 500.
\<close>

definition mock_env :: "string \<Rightarrow> (nat \<times> CallOutcome) list \<Rightarrow> Env" where
  "mock_env jobID sched =
     \<lparr>set_processing_err = None, progress_err = (\<lambda>n. None),
      upload_result = Inr (''http://minio/results/'' @ jobID @ ''.json''),
      set_failed_err = None, set_final_err = None, schedule = sched\<rparr>"

definition answered :: CallOutcome where
  "answered = Responded 200 (Inr (Some prediction_body)) 5"

definition refused :: CallOutcome where
  "refused = Responded 500 (Inl []) 5"

text \<open>
  The pool of the tests, \<open>NewPool(2, server.URL, ...)\<close>; a pool as \<open>main\<close> builds it under
  \<open>WORKER_POOL_SIZE=0\<close>; and an orchestrator that answers the items with an even index
  and refuses the others.
\<close>

definition test_pool :: Pool where
  "test_pool = \<lparr>pool_size = 2, orchestratorURL = ''http://127.0.0.1:8082''\<rparr>"

definition no_workers :: Pool where
  "no_workers = \<lparr>pool_size = 0, orchestratorURL = ''http://localhost:8082''\<rparr>"

definition alternating :: "nat \<Rightarrow> CallOutcome" where
  "alternating i = (if even i then answered else refused)"

definition empty_world :: World where
  "empty_world = \<lparr>jobs = Map.empty, upload_calls = [], clock = 0\<rparr>"

definition stored :: "BatchJob \<Rightarrow> World" where
  "stored job = snd (CreateJob None job empty_world)"

text \<open>
  The descriptor the gateway publishes for the job \<open>test-job-1\<close>, delivered at offset 7,
  and the world in which that job has already run to \<open>completed\<close>.
\<close>

definition descriptor_1 :: json where
  "descriptor_1 =
     JObj [(''job_id'', JStr ''test-job-1''), (''model'', JStr ''resnet18''),
           (''version'', JStr ''v1''),
           (''inputs'', JArr [JObj (data [1, 2, 3]), JObj (data [4, 5, 6])]),
           (''created_at'', JStr ''2024-01-01T00:00:00Z'')]"

definition delivery_1 :: Delivery where
  "delivery_1 =
     \<lparr>is_nil = False, offset = 7, msg_value = Some descriptor_1, received_at = 100,
      create_err = None,
      pool_env = mock_env ''test-job-1'' [(0, answered), (1, answered)]\<rparr>"

definition finished_world :: World where
  "finished_world =
     snd (ProcessJob test_pool (mock_env ''test-job-1'' [(1, answered), (0, answered)])
            test_job_1 (stored test_job_1))"

text \<open>
  The router as \<open>main\<close> starts it (both versions of \<open>resnet18\<close> on the orchestrator), a
  router with one backend, a gateway environment, the gateway's path to a reachable
  router service, and backend calls that start at \<open>t\<close> and are answered 404 or 200.
\<close>

definition startup_router :: ModelRouter where
  "startup_router =
     RegisterBackend ''resnet18'' ''v2'' ''http://localhost:8082'' 0
       (RegisterBackend ''resnet18'' ''v1'' ''http://localhost:8082'' 0 NewModelRouter)"

definition one_backend :: ModelRouter where
  "one_backend = RegisterBackend ''resnet18'' ''v1'' ''http://backend1:8082'' 0 NewModelRouter"

definition gateway_env :: GatewayEnv where
  "gateway_env =
     \<lparr>new_uuid = ''0b8a3c1e-5d2f-4e6a-9c7b-1f2e3d4c5b6a'', timestamp = ''2024-01-01T00:00:00Z'',
      elapsed_ms = 3, marshal_err = None, new_request_err = None, send_err = None\<rparr>"

definition router_service ::
  "nat \<Rightarrow> Call \<Rightarrow> ModelRouter \<Rightarrow> RouteRequestBody \<Rightarrow> string + HttpResponse" where
  "router_service rnd call r request = Inr (fst (RouteInference rnd call (Inr request) r))"

definition not_found_call :: "Time \<Rightarrow> Call" where
  "not_found_call t =
     \<lparr>reply = Reply 404 ''not found'' (Inl ''invalid character''), started = t,
      latency = 5 * Millisecond\<rparr>"

definition answered_call :: "Time \<Rightarrow> Call" where
  "answered_call t =
     \<lparr>reply = Reply 200 [] (Inr prediction_body), started = t, latency = 5 * Millisecond\<rparr>"

text \<open>
  What the bodies of three requests decode to: the request "missing model" of
  \<open>TestRealtimeInference\<close>, \<open>{"model":"nonexistent","version":"1","input":{"data":[1.0]}}\<close>;
  a batch with no input, \<open>{"model":"resnet18","version":"v1","inputs":[]}\<close>; and a batch
  without the member \<open>inputs\<close>, \<open>{"model":"resnet18","version":"v1"}\<close>.
\<close>

definition missing_model_request :: InferenceRequest where
  "missing_model_request =
     \<lparr>ir_Model = ''nonexistent'', ir_Version = ''1'', ir_Input = Some (data [1])\<rparr>"

definition empty_batch_request :: BatchInferenceRequest where
  "empty_batch_request =
     \<lparr>br_Model = ''resnet18'', br_Version = ''v1'', br_Inputs = Some []\<rparr>"

definition no_inputs_request :: BatchInferenceRequest where
  "no_inputs_request =
     \<lparr>br_Model = ''resnet18'', br_Version = ''v1'', br_Inputs = None\<rparr>"

definition breakers :: "ModelRouter \<Rightarrow> string \<Rightarrow> string \<Rightarrow> CircuitBreaker list" where
  "breakers r model version = map Breaker (lookup r model version)"

text \<open>The backend that \<open>RegisterBackend\<close> creates at time 0 for \<open>resnet18\<close>, \<open>v1\<close>.\<close>

definition backend1 :: Backend where
  "backend1 =
     \<lparr>URL = ''http://backend1:8082'',
      Breaker = \<lparr>name = ''resnet18-v1'', state = StateClosed, generation = 1, counts = clear,
                 expiry = Some (10 * Second)\<rparr>,
      HealthStatus = True, LastCheck = 0, AvgLatency = 0\<rparr>"

section \<open>Verified properties\<close>

subsection \<open>The fixtures against the code\<close>

text \<open>
  \<open>backend1\<close> is what \<open>RegisterBackend\<close> builds; the schedules used below for the jobs of
  the tests are schedules of the tests' pool of two workers; and a batch with no input,
  once admitted by the gateway, is consumed into a job with no item that the pool
  completes.
\<close>

lemma test_pool_schedules:
  "pool_schedule test_pool [1, 0] (\<lambda>i. answered) None test_job_1
     = [(1, answered), (0, answered)]"
  "pool_schedule test_pool [] (\<lambda>i. answered) None test_job_1
     = [(0, answered), (1, answered)]"
  "pool_schedule test_pool [] (\<lambda>i. refused) None test_job_1
     = [(0, refused), (1, refused)]"
  "pool_schedule test_pool [1, 0, 1, 0] alternating None test_job_2
     = [(1, refused), (0, answered), (3, refused), (2, answered)]"
  "pool_schedule test_pool [] alternating None empty_job = []"
  by code_simp+

lemma one_backend_lookup:
  "lookup one_backend ''resnet18'' ''v1'' = [backend1]"
  by (simp add: one_backend_def RegisterBackend_def NewModelRouter_def lookup_def backend1_def
        toNewGeneration_def Interval_def Second_def Millisecond_def Microsecond_def
        Nanosecond_def Let_def)

lemma empty_batch_completes:
  "terminal_fields ''0b8a3c1e-5d2f-4e6a-9c7b-1f2e3d4c5b6a''
     (sworld (ConsumeClaim test_pool
        [\<lparr>is_nil = False, offset = 0,
          msg_value = Some (snd (hd (snd (BatchInference gateway_env
                                            (Inr empty_batch_request) [])))),
          received_at = 0, create_err = None,
          pool_env = mock_env ''0b8a3c1e-5d2f-4e6a-9c7b-1f2e3d4c5b6a'' []\<rparr>]
        \<lparr>marked = [], sworld = empty_world\<rparr>))
   = Some (StatusCompleted,
           ''http://minio/results/0b8a3c1e-5d2f-4e6a-9c7b-1f2e3d4c5b6a.json'', [])"
  by code_simp

subsection \<open>Auxiliary facts about the worker pool\<close>

lemma collect_step_fields:
  "completed (collect_step env job r c) = completed c + 1"
  "errorCount (collect_step env job r c) = errorCount c + (if Error (snd r) \<noteq> [] then 1 else 0)"
  "length (results (collect_step env job r c)) = length (results c)"
  by (cases r; simp add: collect_step_def Let_def)+

lemma update_row_frame:
  "upload_calls (update_row jobID f w) = upload_calls w"
  "dom (jobs (update_row jobID f w)) = dom (jobs w)"
  by (auto simp: update_row_def split: option.splits)

lemma collect_step_world:
  "upload_calls (world (collect_step env job r c)) = upload_calls (world c)"
  "dom (jobs (world (collect_step env job r c))) = dom (jobs (world c))"
  by (cases r; simp add: collect_step_def Let_def UpdateJobProgress_def update_row_frame split: option.splits)+

lemma collect_errorCount:
  "errorCount (collect env job rs c) = errorCount c + int (length (filter (\<lambda>r. Error (snd r) \<noteq> []) rs))"
  by (induction rs arbitrary: c) (simp_all add: collect_step_fields)

lemma collect_length:
  "length (results (collect env job rs c)) = length (results c)"
  by (induction rs arbitrary: c) (simp_all add: collect_step_fields)

lemma collect_world:
  "upload_calls (world (collect env job rs c)) = upload_calls (world c)"
  "dom (jobs (world (collect env job rs c))) = dom (jobs (world c))"
  by (induction rs arbitrary: c) (simp_all add: collect_step_world)

lemma set_map_filter_iff:
  "y \<in> set (List.map_filter f xs) \<longleftrightarrow> (\<exists>x \<in> set xs. f x = Some y)"
  by (induction xs) (auto split: option.splits)

lemma worker_input:
  "worker job a = Some (i, r) \<Longrightarrow> i < length (Inputs job) \<and> Input r = Inputs job ! i"
  by (cases a; cases "snd a") (auto simp: worker_def split: if_splits sum.splits)

lemma resultChan_input:
  "(i, r) \<in> set (resultChan p job sched) \<Longrightarrow> i < length (Inputs job) \<and> Input r = Inputs job ! i"
  by (auto simp: resultChan_def set_map_filter_iff dest: worker_input split: if_splits)

lemma resultChan_fst:
  assumes "0 < pool_size p"
  shows "fst ` set (resultChan p job sched) = {i \<in> fst ` set sched. i < length (Inputs job)}"
  using assms
  by (force simp: resultChan_def set_map_filter_iff worker_def split: prod.splits if_splits)

lemma mset_remove_nth:
  "k < length xs \<Longrightarrow> add_mset (xs ! k) (mset (take k xs) + mset (drop (Suc k) xs)) = mset xs"
  by (metis add_mset_add_single id_take_nth_drop mset.simps(2) mset_append
        union_mset_add_mset_left union_mset_add_mset_right add.commute)

text \<open>With at least one worker, every item put into the channel is completed exactly once.\<close>

lemma fan_out_mset:
  "0 < width \<Longrightarrow> mset (fan_out width picks pending inflight) = mset pending + mset inflight"
proof (induction width picks pending inflight rule: fan_out.induct)
  case (1 width picks pending inflight)
  show ?case
  proof (cases "length inflight < width \<and> pending \<noteq> []")
    case True
    then have "mset (fan_out width picks pending inflight)
        = mset (tl pending) + mset (inflight @ [hd pending])"
      using "1.IH"(1) "1.prems" by (subst fan_out.simps) simp
    also have "\<dots> = mset pending + mset inflight"
      using True by (cases pending) simp_all
    finally show ?thesis .
  next
    case False
    show ?thesis
    proof (cases "inflight = []")
      case True
      then have "pending = []" using False "1.prems" by simp
      then show ?thesis using True by (subst fan_out.simps) simp
    next
      case nonempty: False
      define k where "k = (case picks of [] \<Rightarrow> 0 | p # ps \<Rightarrow> p mod length inflight)"
      have k: "k < length inflight"
        using nonempty by (auto simp: k_def split: list.splits)
      have "fan_out width picks pending inflight
          = inflight ! k # fan_out width (tl picks) pending (take k inflight @ drop (Suc k) inflight)"
        using False nonempty by (subst fan_out.simps) (auto simp: k_def Let_def)
      then have "mset (fan_out width picks pending inflight)
          = add_mset (inflight ! k)
              (mset (fan_out width (tl picks) pending (take k inflight @ drop (Suc k) inflight)))"
        by simp
      also have "\<dots> = add_mset (inflight ! k)
              (mset pending + mset (take k inflight @ drop (Suc k) inflight))"
        using "1.IH"(2) [OF False nonempty k_def] "1.prems" by simp
      also have "\<dots> = mset pending + mset inflight"
        using mset_remove_nth [OF k] by (simp add: ac_simps)
      finally show ?thesis .
    qed
  qed
qed

lemma pool_schedule_indices:
  assumes "0 < pool_size p"
  shows "mset (map fst (pool_schedule p picks outcome None job)) = mset [0..<length (Inputs job)]"
proof -
  have "0 < nat (pool_size p)" using assms by simp
  then have "mset (fan_out (nat (pool_size p)) picks [0..<length (Inputs job)] [])
      = mset [0..<length (Inputs job)]"
    by (simp add: fan_out_mset)
  then show ?thesis
    by (simp add: pool_schedule_def Let_def comp_def)
qed

lemma collect_step_results:
  assumes "i < length (results c)"
  shows "results (collect_step env job (k, r) c) ! i =
           (if i = k then Some \<lparr>rd_input = Input r, rd_prediction = Prediction r,
                          rd_latency_ms = Latency r,
                          rd_error = (if Error r \<noteq> [] then Some (Error r) else None)\<rparr>
            else results c ! i)"
  using assms by (simp add: collect_step_def Let_def)

lemma collect_slots:
  assumes "\<forall>(k, r) \<in> set rs. Input r = Inputs job ! k"
      and "i < length (results c)"
      and "i \<in> fst ` set rs \<or> slot_ok job i (results c ! i)"
  shows "slot_ok job i (results (collect env job rs c) ! i)"
  using assms
proof (induction rs arbitrary: c)
  case Nil
  then show ?case by simp
next
  case (Cons a rs)
  obtain k r where a: "a = (k, r)" by (cases a)
  have len: "i < length (results (collect_step env job a c))"
    using Cons.prems(2) by (simp add: collect_step_fields)
  have inp: "Input r = Inputs job ! k" using Cons.prems(1) a by simp
  have "i \<in> fst ` set rs \<or> slot_ok job i (results (collect_step env job a c) ! i)"
  proof (cases "i = k")
    case True
    then show ?thesis
      using Cons.prems(2) inp a by (simp add: collect_step_results slot_ok_def)
  next
    case False
    then show ?thesis
      using Cons.prems(2,3) a by (auto simp: collect_step_results)
  qed
  moreover have "\<forall>(k, r) \<in> set rs. Input r = Inputs job ! k" using Cons.prems(1) by simp
  ultimately show ?case using Cons.IH len by simp
qed


lemma update_status_stmt_frame:
  "upload_calls (update_status_stmt st u m t ct jobID w) = upload_calls w"
  "dom (jobs (update_status_stmt st u m t ct jobID w)) = dom (jobs w)"
  by (simp_all add: update_status_stmt_def update_row_frame)

lemma UpdateJobStatus_frame:
  "upload_calls (snd (UpdateJobStatus e jobID st u m w)) = upload_calls w"
  "dom (jobs (snd (UpdateJobStatus e jobID st u m w))) = dom (jobs w)"
  by (simp_all add: UpdateJobStatus_def Let_def update_status_stmt_frame split: option.splits)

lemma ProcessJob_unfold:
  assumes "set_processing_err env = None"
  shows "ProcessJob p env job w =
     (let c = drain p env job (processing_world job w);
          w2 = (world c)\<lparr>upload_calls := upload_calls (world c) @ [(ID job, results c)]\<rparr>
      in case upload_result env of
           Inl err \<Rightarrow> (Some (''failed to upload results: '' @ err),
                       snd (UpdateJobStatus (set_failed_err env) (ID job) StatusFailed [] err w2))
         | Inr resultURL \<Rightarrow>
             (let finalStatus = (if errorCount c > 0 \<and> errorCount c = TotalItems job
                                 then StatusFailed else StatusCompleted);
                  errorMsg = (if errorCount c > 0
                              then error_summary (errorCount c) (TotalItems job) else [])
              in case UpdateJobStatus (set_final_err env) (ID job) finalStatus resultURL errorMsg w2 of
                   (Some err, w3) \<Rightarrow> (Some (''failed to update final status: '' @ err), w3)
                 | (None, w3) \<Rightarrow> (None, w3)))"
proof -
  have "UpdateJobStatus None (ID job) StatusProcessing [] [] w = (None, processing_world job w)"
    by (simp add: UpdateJobStatus_def processing_world_def)
  then show ?thesis
    using assms by (simp add: ProcessJob_def UploadResults_def Let_def split: sum.splits)
qed

lemma snd_error_case:
  "snd (case p of (Some err, w3) \<Rightarrow> (f err, w3) | (None, w3) \<Rightarrow> (None, w3)) = snd p"
  by (cases p; cases "fst p") auto

lemma ProcessJob_world:
  assumes "set_processing_err env = None"
  shows "snd (ProcessJob p env job w) =
     (let c = drain p env job (processing_world job w);
          w2 = (world c)\<lparr>upload_calls := upload_calls (world c) @ [(ID job, results c)]\<rparr>
      in case upload_result env of
           Inl err \<Rightarrow> snd (UpdateJobStatus (set_failed_err env) (ID job) StatusFailed [] err w2)
         | Inr resultURL \<Rightarrow>
             snd (UpdateJobStatus (set_final_err env) (ID job)
                    (if errorCount c > 0 \<and> errorCount c = TotalItems job
                     then StatusFailed else StatusCompleted)
                    resultURL
                    (if errorCount c > 0
                     then error_summary (errorCount c) (TotalItems job) else [])
                    w2))"
  by (simp add: ProcessJob_unfold [OF assms] Let_def snd_error_case split: sum.splits)

lemma ProcessJob_upload_calls:
  assumes "set_processing_err env = None"
  shows "upload_calls (snd (ProcessJob p env job w)) =
           upload_calls w @ [(ID job, results (drain p env job (processing_world job w)))]"
proof -
  have w1: "upload_calls (world (drain p env job (processing_world job w))) = upload_calls w"
    by (simp add: drain_def collect_world processing_world_def update_status_stmt_frame)
  show ?thesis
    by (simp add: ProcessJob_world [OF assms] Let_def UpdateJobStatus_frame w1 split: sum.splits)
qed

lemma drained_errorCount:
  "errorCount (drain p env job (processing_world job w)) = errored p job (schedule env)"
  by (simp add: drain_def collect_errorCount errored_def)

lemma drained_length:
  "length (results (drain p env job (processing_world job w))) = length (Inputs job)"
  by (simp add: drain_def collect_length)

lemma drained_slots:
  assumes "mset (map fst (schedule env)) = mset [0..<length (Inputs job)]"
      and "i < length (Inputs job)"
      and "0 < pool_size p"
  shows "slot_ok job i (results (drain p env job (processing_world job w)) ! i)"
proof -
  have "set (map fst (schedule env)) = set [0..<length (Inputs job)]"
    using assms(1) by (metis set_mset_mset)
  then have "i \<in> fst ` set (schedule env)" using assms(2) by auto
  then have "i \<in> fst ` set (resultChan p job (schedule env))"
    using assms(2) by (simp add: resultChan_fst [OF assms(3)])
  moreover have "\<forall>(k, r) \<in> set (resultChan p job (schedule env)). Input r = Inputs job ! k"
    using resultChan_input by fastforce
  ultimately show ?thesis
    unfolding drain_def using assms(2) by (intro collect_slots) simp_all
qed

lemma terminal_fields_jobs:
  "terminal_fields jobID w =
     map_option (\<lambda>row. (col_status row,
                         (case col_result_url row of Some u \<Rightarrow> u | None \<Rightarrow> []),
                         (case col_error_msg row of Some m \<Rightarrow> m | None \<Rightarrow> [])))
       (jobs w jobID)"
  by (simp add: terminal_fields_def GetJob_def split: option.splits)

lemma terminal_fields_upload_calls [simp]:
  "terminal_fields jobID (w\<lparr>upload_calls := u\<rparr>) = terminal_fields jobID w"
  by (simp add: terminal_fields_jobs)

lemma UpdateJobProgress_terminal_fields:
  "terminal_fields k (snd (UpdateJobProgress e jobID n p w)) = terminal_fields k w"
  by (simp add: terminal_fields_jobs UpdateJobProgress_def update_row_def split: option.splits)

lemma collect_step_terminal_fields:
  "terminal_fields k (world (collect_step env job r c)) = terminal_fields k (world c)"
  by (cases r) (simp add: collect_step_def Let_def UpdateJobProgress_terminal_fields)

lemma collect_terminal_fields:
  "terminal_fields k (world (collect env job rs c)) = terminal_fields k (world c)"
  by (induction rs arbitrary: c) (simp_all add: collect_step_terminal_fields)

lemma update_status_stmt_terminal_fields:
  assumes "jobID \<in> dom (jobs w)"
  shows "terminal_fields jobID (update_status_stmt st u m t ct jobID w) = Some (st, u, m)"
  using assms by (auto simp: terminal_fields_jobs update_status_stmt_def update_row_def)

lemma UpdateJobStatus_terminal_fields:
  assumes "jobID \<in> dom (jobs w)"
  shows "terminal_fields jobID (snd (UpdateJobStatus e jobID st u m w)) =
           (case e of None \<Rightarrow> Some (st, u, m) | Some err \<Rightarrow> terminal_fields jobID w)"
  using assms
  by (simp add: UpdateJobStatus_def Let_def update_status_stmt_terminal_fields split: option.splits)

lemma drain_terminal_fields:
  assumes "ID job \<in> dom (jobs w)"
  shows "terminal_fields (ID job) (world (drain p env job (processing_world job w)))
           = Some (StatusProcessing, [], [])"
  using assms
  by (simp add: drain_def collect_terminal_fields processing_world_def
        update_status_stmt_terminal_fields)

lemma drain_dom:
  "dom (jobs (world (drain p env job (processing_world job w)))) = dom (jobs w)"
  by (simp add: drain_def collect_world processing_world_def update_status_stmt_frame)

lemma ProcessJob_terminal_fields:
  assumes "set_processing_err env = None" and "ID job \<in> dom (jobs w)"
  shows "terminal_fields (ID job) (snd (ProcessJob p env job w)) =
     (case upload_result env of
        Inl err \<Rightarrow>
          (case set_failed_err env of
             None \<Rightarrow> Some (StatusFailed, [], err)
           | Some e \<Rightarrow> Some (StatusProcessing, [], []))
      | Inr resultURL \<Rightarrow>
          (case set_final_err env of
             None \<Rightarrow>
               Some (if errored p job (schedule env) > 0
                        \<and> errored p job (schedule env) = TotalItems job
                     then StatusFailed else StatusCompleted,
                     resultURL,
                     if errored p job (schedule env) > 0
                     then error_summary (errored p job (schedule env)) (TotalItems job) else [])
           | Some e \<Rightarrow> Some (StatusProcessing, [], [])))"
proof -
  let ?c = "drain p env job (processing_world job w)"
  let ?w2 = "(world ?c)\<lparr>upload_calls := upload_calls (world ?c) @ [(ID job, results ?c)]\<rparr>"
  have d: "ID job \<in> dom (jobs ?w2)" using assms(2) drain_dom [of p env job w] by simp
  have t: "terminal_fields (ID job) ?w2 = Some (StatusProcessing, [], [])"
    using drain_terminal_fields [OF assms(2)] by simp
  show ?thesis
    by (simp add: ProcessJob_world [OF assms(1)] Let_def UpdateJobStatus_terminal_fields [OF d] t
          drain_terminal_fields [OF assms(2)]
          drained_errorCount split: sum.splits option.splits)
qed

subsection \<open>Manifest ordering\<close>

text \<open>
  C2, as stated, fails for a pool that starts no worker (\<open>WORKER_POOL_SIZE=0\<close>): nothing
  reaches the collector, the manifest that is uploaded for the two inputs of
  \<open>test-job-1\<close> holds two empty slots, and the job is set to \<open>completed\<close>.
\<close>

theorem manifest_no_worker_counterexample:
  "upload_calls (snd (ProcessJob no_workers
       (mock_env ''test-job-1'' (pool_schedule no_workers [] alternating None test_job_1))
       test_job_1 (stored test_job_1)))
     = [(''test-job-1'', [None, None])]
   \<and> terminal_fields ''test-job-1'' (snd (ProcessJob no_workers
       (mock_env ''test-job-1'' (pool_schedule no_workers [] alternating None test_job_1))
       test_job_1 (stored test_job_1)))
     = Some (StatusCompleted, ''http://minio/results/test-job-1.json'', [])"
  by code_simp

text \<open>
  C2, amended. For every job run by a pool with at least one worker whose context is not
  cancelled, once the job is marked \<open>processing\<close>: whatever the order in which the workers
  finish the items (whatever the scheduler's picks and whatever each call meets), the
  pool calls the upload exactly once for the job, with a manifest of exactly \<open>N\<close> entries
  whose entry \<open>i\<close> is the result for \<open>original_inputs[i]\<close>, that is,
  \<open>manifest[i].input = original_inputs[i]\<close> for every \<open>i < N\<close>.
\<close>

theorem manifest_preserves_input_order:
  assumes "set_processing_err env = None"
      and "0 < pool_size p"
      and "schedule env = pool_schedule p picks outcome None job"
  shows "\<exists>m. upload_calls (snd (ProcessJob p env job w)) = upload_calls w @ [(ID job, m)]
           \<and> length m = length (Inputs job)
           \<and> (\<forall>i < length (Inputs job). \<exists>rd. m ! i = Some rd \<and> rd_input rd = Inputs job ! i)"
proof -
  let ?m = "results (drain p env job (processing_world job w))"
  have perm: "mset (map fst (schedule env)) = mset [0..<length (Inputs job)]"
    using assms(3) pool_schedule_indices [OF assms(2)] by simp
  have "upload_calls (snd (ProcessJob p env job w)) = upload_calls w @ [(ID job, ?m)]"
    by (rule ProcessJob_upload_calls [OF assms(1)])
  moreover have "length ?m = length (Inputs job)" by (rule drained_length)
  moreover have "\<forall>i < length (Inputs job). \<exists>rd. ?m ! i = Some rd \<and> rd_input rd = Inputs job ! i"
    using drained_slots [OF perm _ assms(2)] by (simp add: slot_ok_def)
  ultimately show ?thesis by blast
qed

text \<open>
  The job of \<open>TestPool_ProcessJob_PartialFailure\<close> on the two workers of the test, its
  four results arriving in the order 1, 0, 3, 2.
\<close>

theorem manifest_preserves_input_order_witness:
  "set_processing_err (mock_env ''test-job-2''
       (pool_schedule test_pool [1, 0, 1, 0] alternating None test_job_2)) = None
   \<and> 0 < pool_size test_pool
   \<and> schedule (mock_env ''test-job-2''
       (pool_schedule test_pool [1, 0, 1, 0] alternating None test_job_2))
       = pool_schedule test_pool [1, 0, 1, 0] alternating None test_job_2
   \<and> pool_schedule test_pool [1, 0, 1, 0] alternating None test_job_2
       = [(1, refused), (0, answered), (3, refused), (2, answered)]
   \<and> (\<exists>m. upload_calls (snd (ProcessJob test_pool (mock_env ''test-job-2''
               (pool_schedule test_pool [1, 0, 1, 0] alternating None test_job_2))
               test_job_2 (stored test_job_2)))
            = upload_calls (stored test_job_2) @ [(ID test_job_2, m)]
          \<and> length m = length (Inputs test_job_2)
          \<and> (\<forall>i < length (Inputs test_job_2).
                \<exists>rd. m ! i = Some rd \<and> rd_input rd = Inputs test_job_2 ! i))"
proof -
  let ?sched = "pool_schedule test_pool [1, 0, 1, 0] alternating None test_job_2"
  let ?env = "mock_env ''test-job-2'' ?sched"
  have h1: "set_processing_err ?env = None"
    by (simp add: mock_env_def)
  have h2: "0 < pool_size test_pool"
    by (simp add: test_pool_def)
  have h3: "schedule ?env = ?sched"
    by (simp add: mock_env_def)
  have order: "?sched = [(1, refused), (0, answered), (3, refused), (2, answered)]"
    by code_simp
  show ?thesis
    using h1 h2 h3 order
      manifest_preserves_input_order [OF h1 h2 h3, of "stored test_job_2"]
    by (intro conjI)
qed

subsection \<open>Final status after the drain\<close>

text \<open>
  C3, as stated, fails for a job with no item: there \<open>E = N = 0\<close>, no result ever arrives,
  \<open>errorCount > 0\<close> is false and the job is set to \<open>completed\<close>, not \<open>failed\<close>.
\<close>

theorem drain_final_status_counterexample:
  "errored test_pool empty_job (schedule (mock_env ''empty-job'' [])) = TotalItems empty_job
   \<and> terminal_fields ''empty-job''
         (snd (ProcessJob test_pool (mock_env ''empty-job'' []) empty_job (stored empty_job)))
       = Some (StatusCompleted, ''http://minio/results/empty-job.json'', [])"
  by code_simp

text \<open>
  C3, amended. Let \<open>N\<close> be the job's item count and \<open>E\<close> the number of results that came
  back with an error. Once the job is marked \<open>processing\<close>, the pool calls the upload
  exactly once. When the upload returns a URL and the final status update is executed,
  the stored record carries that URL and: the status is \<open>completed\<close> whenever \<open>E < N\<close>;
  the error summary is \<open>"E/N items failed"\<close> when \<open>0 < E < N\<close> and empty when \<open>E = 0\<close>;
  for \<open>N \<ge> 1\<close> the status is \<open>failed\<close> exactly when \<open>E = N\<close>; for \<open>N = 0\<close> it is
  \<open>completed\<close>.
\<close>

theorem drain_final_status:
  assumes "set_processing_err env = None"
      and "upload_result env = Inr url"
      and "set_final_err env = None"
      and "ID job \<in> dom (jobs w)"
  shows "(\<exists>m. upload_calls (snd (ProcessJob p env job w)) = upload_calls w @ [(ID job, m)])
       \<and> (\<exists>st msg.
            terminal_fields (ID job) (snd (ProcessJob p env job w)) = Some (st, url, msg)
            \<and> (errored p job (schedule env) < TotalItems job \<longrightarrow> st = StatusCompleted)
            \<and> (0 < errored p job (schedule env) \<and> errored p job (schedule env) < TotalItems job
                 \<longrightarrow> msg = error_summary (errored p job (schedule env)) (TotalItems job))
            \<and> (errored p job (schedule env) = 0 \<longrightarrow> msg = [])
            \<and> (0 < TotalItems job \<longrightarrow>
                  (st = StatusFailed \<longleftrightarrow> errored p job (schedule env) = TotalItems job))
            \<and> (TotalItems job = 0 \<longrightarrow> st = StatusCompleted))"
proof
  show "\<exists>m. upload_calls (snd (ProcessJob p env job w)) = upload_calls w @ [(ID job, m)]"
    using ProcessJob_upload_calls [OF assms(1)] by blast
next
  let ?E = "errored p job (schedule env)"
  let ?N = "TotalItems job"
  have "terminal_fields (ID job) (snd (ProcessJob p env job w)) =
          Some (if ?E > 0 \<and> ?E = ?N then StatusFailed else StatusCompleted, url,
                if ?E > 0 then error_summary ?E ?N else [])"
    using ProcessJob_terminal_fields [OF assms(1) assms(4)] assms(2,3) by simp
  then show "\<exists>st msg.
            terminal_fields (ID job) (snd (ProcessJob p env job w)) = Some (st, url, msg)
            \<and> (?E < ?N \<longrightarrow> st = StatusCompleted)
            \<and> (0 < ?E \<and> ?E < ?N \<longrightarrow> msg = error_summary ?E ?N)
            \<and> (?E = 0 \<longrightarrow> msg = [])
            \<and> (0 < ?N \<longrightarrow> (st = StatusFailed \<longleftrightarrow> ?E = ?N))
            \<and> (?N = 0 \<longrightarrow> st = StatusCompleted)"
    by auto
qed

text \<open>
  Scenario "partial batch failure": four inputs, two of them refused. The record ends
  \<open>completed\<close> with the summary \<open>2/4 items failed\<close>.
\<close>

theorem drain_final_status_witness:
  "set_processing_err (mock_env ''test-job-2''
       [(1, refused), (0, answered), (3, refused), (2, answered)]) = None
   \<and> upload_result (mock_env ''test-job-2''
       [(1, refused), (0, answered), (3, refused), (2, answered)])
       = Inr ''http://minio/results/test-job-2.json''
   \<and> set_final_err (mock_env ''test-job-2''
       [(1, refused), (0, answered), (3, refused), (2, answered)]) = None
   \<and> ID test_job_2 \<in> dom (jobs (stored test_job_2))
   \<and> errored test_pool test_job_2 [(1, refused), (0, answered), (3, refused), (2, answered)] = 2
   \<and> TotalItems test_job_2 = 4
   \<and> terminal_fields (ID test_job_2)
        (snd (ProcessJob test_pool (mock_env ''test-job-2''
                [(1, refused), (0, answered), (3, refused), (2, answered)])
              test_job_2 (stored test_job_2)))
       = Some (StatusCompleted, ''http://minio/results/test-job-2.json'', error_summary 2 4)"
proof -
  let ?sched = "[(1, refused), (0, answered), (3, refused), (2, answered)]"
  let ?env = "mock_env ''test-job-2'' ?sched"
  have h1: "set_processing_err ?env = None" by (simp add: mock_env_def)
  have h2: "upload_result ?env = Inr ''http://minio/results/test-job-2.json''"
    by (simp add: mock_env_def)
  have h3: "set_final_err ?env = None" by (simp add: mock_env_def)
  have h4: "ID test_job_2 \<in> dom (jobs (stored test_job_2))"
    by (simp add: stored_def CreateJob_def empty_world_def test_job_2_def)
  have e: "errored test_pool test_job_2 (schedule ?env) = 2"
    unfolding mock_env_def by code_simp
  have n: "TotalItems test_job_2 = 4" by (simp add: test_job_2_def)
  have s: "schedule ?env = ?sched" by (simp add: mock_env_def)
  from drain_final_status [OF h1 h2 h3 h4, where p = test_pool]
  have "terminal_fields (ID test_job_2) (snd (ProcessJob test_pool ?env test_job_2 (stored test_job_2)))
          = Some (StatusCompleted, ''http://minio/results/test-job-2.json'', error_summary 2 4)"
    unfolding e n by auto
  then show ?thesis using h1 h2 h3 h4 e n s by simp
qed

subsection \<open>Terminal fields\<close>

text \<open>
  C1, as stated, fails on a partial failure: the job of
  \<open>TestPool_ProcessJob_PartialFailure\<close> ends \<open>completed\<close> with both a result reference and
  an error summary.
\<close>

theorem terminal_fields_counterexample:
  "terminal_fields ''test-job-2''
     (snd (ProcessJob test_pool (mock_env ''test-job-2''
             [(1, refused), (0, answered), (3, refused), (2, answered)])
           test_job_2 (stored test_job_2)))
   = Some (StatusCompleted, ''http://minio/results/test-job-2.json'', ''2/4 items failed'')"
  by code_simp

text \<open>
  C1, amended. For a job the pool has marked \<open>processing\<close>, with \<open>E\<close> errored results out
  of \<open>N\<close> items: when the upload returns a URL and the final status update is executed,
  the record is terminal (\<open>completed\<close> or \<open>failed\<close>), its result reference is that URL
  whatever the status, its error summary is \<open>"E/N items failed"\<close> when \<open>E > 0\<close> and empty
  when \<open>E = 0\<close>, and it is \<open>failed\<close> only if \<open>E > 0\<close>; when the upload fails and the status
  update that follows is executed, the record is \<open>failed\<close> with an empty result reference
  and the upload's error as error summary.
\<close>

theorem terminal_fields_by_outcome:
  assumes "set_processing_err env = None" and "ID job \<in> dom (jobs w)"
  shows "(\<forall>url. upload_result env = Inr url \<and> set_final_err env = None \<longrightarrow>
            (\<exists>st. terminal_fields (ID job) (snd (ProcessJob p env job w))
                     = Some (st, url,
                             if 0 < errored p job (schedule env)
                             then error_summary (errored p job (schedule env)) (TotalItems job)
                             else [])
                  \<and> (st = StatusCompleted \<or> st = StatusFailed)
                  \<and> (st = StatusFailed \<longrightarrow> 0 < errored p job (schedule env))))
       \<and> (\<forall>err. upload_result env = Inl err \<and> set_failed_err env = None \<longrightarrow>
            terminal_fields (ID job) (snd (ProcessJob p env job w)) = Some (StatusFailed, [], err))"
  using ProcessJob_terminal_fields [OF assms] by auto

text \<open>The job of \<open>TestPool_ProcessJob_Success\<close>: both items answered.\<close>

theorem terminal_fields_by_outcome_witness:
  "set_processing_err (mock_env ''test-job-1'' [(1, answered), (0, answered)]) = None
   \<and> ID test_job_1 \<in> dom (jobs (stored test_job_1))
   \<and> upload_result (mock_env ''test-job-1'' [(1, answered), (0, answered)])
       = Inr ''http://minio/results/test-job-1.json''
   \<and> set_final_err (mock_env ''test-job-1'' [(1, answered), (0, answered)]) = None
   \<and> errored test_pool test_job_1 [(1, answered), (0, answered)] = 0
   \<and> terminal_fields (ID test_job_1)
        (snd (ProcessJob test_pool (mock_env ''test-job-1'' [(1, answered), (0, answered)])
              test_job_1 (stored test_job_1)))
       = Some (StatusCompleted, ''http://minio/results/test-job-1.json'', [])"
proof -
  let ?sched = "[(1, answered), (0, answered)]"
  let ?env = "mock_env ''test-job-1'' ?sched"
  have h1: "set_processing_err ?env = None" by (simp add: mock_env_def)
  have h2: "ID test_job_1 \<in> dom (jobs (stored test_job_1))"
    by (simp add: stored_def CreateJob_def empty_world_def test_job_1_def)
  have h3: "upload_result ?env = Inr ''http://minio/results/test-job-1.json''"
    by (simp add: mock_env_def)
  have h4: "set_final_err ?env = None" by (simp add: mock_env_def)
  have e: "errored test_pool test_job_1 (schedule ?env) = 0"
    unfolding mock_env_def by code_simp
  have s: "schedule ?env = ?sched" by (simp add: mock_env_def)
  from terminal_fields_by_outcome [OF h1 h2, where p = test_pool] h3 h4
  have "terminal_fields (ID test_job_1) (snd (ProcessJob test_pool ?env test_job_1 (stored test_job_1)))
          = Some (StatusCompleted, ''http://minio/results/test-job-1.json'', [])"
    unfolding e by auto
  then show ?thesis using h1 h2 h3 h4 e s by simp
qed

subsection \<open>Re-invocation on a finished job\<close>

text \<open>
  C5, as stated, fails: \<open>ProcessJob\<close> never reads the stored status. Invoked for the job
  \<open>test-job-1\<close>, whose record is \<open>completed\<close>, while the orchestrator refuses every call, it
  dispatches both items, uploads a second manifest and turns the record to \<open>failed\<close>.
\<close>

theorem ProcessJob_terminal_counterexample:
  "terminal_fields ''test-job-1'' finished_world
     = Some (StatusCompleted, ''http://minio/results/test-job-1.json'', [])
   \<and> length (upload_calls finished_world) = 1
   \<and> length (resultChan test_pool test_job_1 [(0, refused), (1, refused)]) = 2
   \<and> terminal_fields ''test-job-1''
        (snd (ProcessJob test_pool (mock_env ''test-job-1'' [(0, refused), (1, refused)])
              test_job_1 finished_world))
       = Some (StatusFailed, ''http://minio/results/test-job-1.json'', ''2/2 items failed'')
   \<and> length (upload_calls
        (snd (ProcessJob test_pool (mock_env ''test-job-1'' [(0, refused), (1, refused)])
              test_job_1 finished_world))) = 2"
  by code_simp

text \<open>
  C5, amended. A descriptor delivered again by the log, for a job id that already has a
  stored record (in a terminal state or any other), is a no-op on the job store and the
  object store: the \<open>INSERT\<close> of \<open>CreateJob\<close> fails on the primary key, so the executor is
  not invoked, no item is dispatched, no manifest is written and the stored record is
  left unchanged; the message is marked as processed. \<open>ProcessJob\<close> itself makes no check
  of the stored status.
\<close>

theorem redelivery_is_noop:
  assumes "\<not> is_nil d"
      and "unmarshal_map (msg_value d) = Inr jobMsg"
      and "as_string jobMsg ''job_id'' \<in> dom (jobs (sworld s))"
  shows "handle_message p d s = s\<lparr>marked := marked s @ [offset d]\<rparr>"
  using assms
  by (cases "create_err d") (simp_all add: handle_message_def CreateJob_def Let_def)

theorem redelivery_is_noop_witness:
  "\<not> is_nil delivery_1
   \<and> unmarshal_map (msg_value delivery_1)
       = Inr [(''job_id'', JStr ''test-job-1''), (''model'', JStr ''resnet18''),
              (''version'', JStr ''v1''),
              (''inputs'', JArr [JObj (data [1, 2, 3]), JObj (data [4, 5, 6])]),
              (''created_at'', JStr ''2024-01-01T00:00:00Z'')]
   \<and> as_string [(''job_id'', JStr ''test-job-1''), (''model'', JStr ''resnet18''),
              (''version'', JStr ''v1''),
              (''inputs'', JArr [JObj (data [1, 2, 3]), JObj (data [4, 5, 6])]),
              (''created_at'', JStr ''2024-01-01T00:00:00Z'')] ''job_id''
       \<in> dom (jobs (sworld \<lparr>marked = [], sworld = finished_world\<rparr>))
   \<and> handle_message test_pool delivery_1 \<lparr>marked = [], sworld = finished_world\<rparr>
       = \<lparr>marked = [7], sworld = finished_world\<rparr>"
proof -
  let ?m = "[(''job_id'', JStr ''test-job-1''), (''model'', JStr ''resnet18''),
              (''version'', JStr ''v1''),
              (''inputs'', JArr [JObj (data [1, 2, 3]), JObj (data [4, 5, 6])]),
              (''created_at'', JStr ''2024-01-01T00:00:00Z'')]"
  let ?s = "\<lparr>marked = [], sworld = finished_world\<rparr>"
  have h1: "\<not> is_nil delivery_1" by (simp add: delivery_1_def)
  have h2: "unmarshal_map (msg_value delivery_1) = Inr ?m"
    by (simp add: delivery_1_def descriptor_1_def unmarshal_map_def)
  have "terminal_fields ''test-job-1'' finished_world \<noteq> None" by code_simp
  then have "''test-job-1'' \<in> dom (jobs finished_world)"
    by (auto simp: terminal_fields_jobs)
  then have h3: "as_string ?m ''job_id'' \<in> dom (jobs (sworld ?s))"
    by (simp add: as_string_def)
  have "handle_message test_pool delivery_1 ?s = ?s\<lparr>marked := marked ?s @ [offset delivery_1]\<rparr>"
    by (rule redelivery_is_noop [OF h1 h2 h3, where p = test_pool])
  then have "handle_message test_pool delivery_1 ?s = \<lparr>marked = [7], sworld = finished_world\<rparr>"
    by (simp add: delivery_1_def)
  then show ?thesis using h1 h2 h3 by simp
qed

subsection \<open>What the circuit breaker counts\<close>

text \<open>
  C4, as stated, fails: \<open>executeRequest\<close> returns an error for every status other than 200
  and the breaker counts every error. One backend answering 404: after the first call
  its failure counters stand at one, after the third the breaker is open, and the fourth
  call is refused without reaching the backend.
\<close>

theorem client_errors_counterexample:
  "fst (RouteRequest 0 (not_found_call Second) ''resnet18'' ''v1'' one_backend)
     = Inl ''backend returned status 404: not found''
   \<and> map counts (breakers
         (snd (RouteRequest 0 (not_found_call Second) ''resnet18'' ''v1'' one_backend))
         ''resnet18'' ''v1'')
     = [\<lparr>Requests = 1, TotalSuccesses = 0, TotalFailures = 1, ConsecutiveSuccesses = 0,
         ConsecutiveFailures = 1\<rparr>]
   \<and> map state (breakers
         (snd (RouteRequest 0 (not_found_call (3 * Second)) ''resnet18'' ''v1''
           (snd (RouteRequest 0 (not_found_call (2 * Second)) ''resnet18'' ''v1''
             (snd (RouteRequest 0 (not_found_call Second) ''resnet18'' ''v1'' one_backend))))))
         ''resnet18'' ''v1'')
     = [StateOpen]
   \<and> fst (RouteRequest 0 (answered_call (4 * Second)) ''resnet18'' ''v1''
         (snd (RouteRequest 0 (not_found_call (3 * Second)) ''resnet18'' ''v1''
           (snd (RouteRequest 0 (not_found_call (2 * Second)) ''resnet18'' ''v1''
             (snd (RouteRequest 0 (not_found_call Second) ''resnet18'' ''v1'' one_backend)))))))
     = Inl ''circuit breaker is open''"
  by code_simp

lemma currentState_closed:
  assumes "state cb = StateClosed" and "expiry cb = Some e" and "t \<le> e"
  shows "currentState cb t = cb"
  using assms by (simp add: currentState_def)

text \<open>
  C4, amended. For every backend call that a closed breaker admits within its counting
  interval: a response with any status code other than 200, 4xx included, is returned to
  the caller as an error; every call that returns an error (a transport error, a status
  other than 200, an undecodable body) is counted as a breaker failure, that is, the
  request and failure counters are incremented and the trip predicate is evaluated on
  them, opening the breaker when it holds; only a call that returns a result is counted
  as a success.
\<close>

theorem errors_count_as_failures:
  assumes "state (Breaker b) = StateClosed"
      and "expiry (Breaker b) = Some e"
      and "0 \<le> latency call" and "started call + latency call \<le> e"
  shows "(\<forall>status text decoded.
            reply call = Reply status text decoded \<and> status \<noteq> StatusOK \<longrightarrow>
              fst (Execute call b)
                = Inl (''backend returned status '' @ fmt_d status @ '': '' @ text))
       \<and> (\<forall>err. fst (Execute call b) = Inl err \<longrightarrow>
              Breaker (snd (Execute call b))
                = (let cb = (Breaker b)\<lparr>counts := onFailure (onRequest (counts (Breaker b)))\<rparr>
                   in if ReadyToTrip (counts cb)
                      then setState cb StateOpen (started call + latency call) else cb))
       \<and> (\<forall>result. fst (Execute call b) = Inr result \<longrightarrow>
              Breaker (snd (Execute call b))
                = (Breaker b)\<lparr>counts := onSuccess (onRequest (counts (Breaker b)))\<rparr>)"
proof -
  let ?cb1 = "(Breaker b)\<lparr>counts := onRequest (counts (Breaker b))\<rparr>"
  have t0: "started call \<le> e" using assms(3,4) by simp
  have before: "beforeRequest (Breaker b) (started call) = (Inr (generation (Breaker b)), ?cb1)"
    using assms(1,2) t0 by (simp add: beforeRequest_def currentState_closed Let_def)
  have cur: "currentState ?cb1 (started call + latency call) = ?cb1"
    using assms(1,2,4) by (simp add: currentState_def)
  have ex: "Execute call b =
      (fst (executeRequest call (b\<lparr>Breaker := ?cb1\<rparr>)),
       (snd (executeRequest call (b\<lparr>Breaker := ?cb1\<rparr>)))\<lparr>Breaker :=
          afterRequest ?cb1 (generation (Breaker b))
            (case fst (executeRequest call (b\<lparr>Breaker := ?cb1\<rparr>)) of
               Inl err \<Rightarrow> False | Inr v \<Rightarrow> True)
            (started call + latency call)\<rparr>)"
    by (simp add: Execute_def before split: prod.splits)
  have fail: "afterRequest ?cb1 (generation (Breaker b)) False (started call + latency call)
      = (let cb = (Breaker b)\<lparr>counts := onFailure (onRequest (counts (Breaker b)))\<rparr>
         in if ReadyToTrip (counts cb)
            then setState cb StateOpen (started call + latency call) else cb)"
    using assms(1) by (simp add: afterRequest_def cur Let_def)
  have succ: "afterRequest ?cb1 (generation (Breaker b)) True (started call + latency call)
      = (Breaker b)\<lparr>counts := onSuccess (onRequest (counts (Breaker b)))\<rparr>"
    using assms(1) by (simp add: afterRequest_def cur Let_def)
  have a: "\<forall>status text decoded.
            reply call = Reply status text decoded \<and> status \<noteq> StatusOK \<longrightarrow>
              fst (Execute call b)
                = Inl (''backend returned status '' @ fmt_d status @ '': '' @ text)"
    by (simp add: ex executeRequest_def)
  have b: "\<forall>err. fst (Execute call b) = Inl err \<longrightarrow>
              Breaker (snd (Execute call b))
                = (let cb = (Breaker b)\<lparr>counts := onFailure (onRequest (counts (Breaker b)))\<rparr>
                   in if ReadyToTrip (counts cb)
                      then setState cb StateOpen (started call + latency call) else cb)"
    using fail by (simp add: ex)
  have c: "\<forall>result. fst (Execute call b) = Inr result \<longrightarrow>
              Breaker (snd (Execute call b))
                = (Breaker b)\<lparr>counts := onSuccess (onRequest (counts (Breaker b)))\<rparr>"
    using succ by (simp add: ex)
  show ?thesis using a b c by blast
qed

text \<open>A fresh backend answering 404 one second after its registration.\<close>

theorem errors_count_as_failures_witness:
  "state (Breaker backend1) = StateClosed
   \<and> expiry (Breaker backend1) = Some (10 * Second)
   \<and> 0 \<le> latency (not_found_call Second)
   \<and> started (not_found_call Second) + latency (not_found_call Second) \<le> 10 * Second
   \<and> fst (Execute (not_found_call Second) backend1)
       = Inl ''backend returned status 404: not found''
   \<and> counts (Breaker (snd (Execute (not_found_call Second) backend1)))
       = \<lparr>Requests = 1, TotalSuccesses = 0, TotalFailures = 1, ConsecutiveSuccesses = 0,
          ConsecutiveFailures = 1\<rparr>"
proof -
  let ?call = "not_found_call Second"
  have h1: "state (Breaker backend1) = StateClosed" by (simp add: backend1_def)
  have h2: "expiry (Breaker backend1) = Some (10 * Second)" by (simp add: backend1_def)
  have h3: "0 \<le> latency ?call"
    by (simp add: not_found_call_def Millisecond_def Microsecond_def Nanosecond_def)
  have h4: "started ?call + latency ?call \<le> 10 * Second"
    by (simp add: not_found_call_def Second_def Millisecond_def Microsecond_def Nanosecond_def)
  note inst = errors_count_as_failures [OF h1 h2 h3 h4]
  have r: "reply ?call = Reply 404 ''not found'' (Inl ''invalid character'') \<and> (404::int) \<noteq> StatusOK"
    by (simp add: not_found_call_def StatusOK_def)
  have f: "fmt_d 404 = ''404''" by code_simp
  from inst r have "fst (Execute ?call backend1)
      = Inl (''backend returned status '' @ fmt_d 404 @ '': '' @ ''not found'')"
    by blast
  then have c1: "fst (Execute ?call backend1) = Inl ''backend returned status 404: not found''"
    by (simp add: f)
  from inst c1 have "Breaker (snd (Execute ?call backend1))
      = (let cb = (Breaker backend1)\<lparr>counts := onFailure (onRequest (counts (Breaker backend1)))\<rparr>
         in if ReadyToTrip (counts cb)
            then setState cb StateOpen (started ?call + latency ?call) else cb)"
    by blast
  then have c2: "counts (Breaker (snd (Execute ?call backend1)))
       = \<lparr>Requests = 1, TotalSuccesses = 0, TotalFailures = 1, ConsecutiveSuccesses = 0,
          ConsecutiveFailures = 1\<rparr>"
    by (simp add: backend1_def Let_def onFailure_def onRequest_def clear_def ReadyToTrip_def)
  show ?thesis using h1 h2 h3 h4 c1 c2 by (intro conjI)
qed

subsection \<open>Registration of a target that is already registered\<close>

text \<open>
  C8, as stated, fails: \<open>RegisterBackend\<close> appends without looking at the list. The same
  target registered twice under one key is listed twice.
\<close>

theorem RegisterBackend_duplicate_counterexample:
  "map URL (lookup (RegisterBackend ''resnet18'' ''v1'' ''http://backend1:8082'' 1 one_backend)
              ''resnet18'' ''v1'')
     = [''http://backend1:8082'', ''http://backend1:8082'']
   \<and> \<not> distinct (map URL
         (lookup (RegisterBackend ''resnet18'' ''v1'' ''http://backend1:8082'' 1 one_backend)
            ''resnet18'' ''v1''))"
  by code_simp

text \<open>
  C8, amended. \<open>register(model, version, target)\<close> appends unconditionally: for every
  registry state, the endpoint list of the key after the call is the list before it
  followed by one new endpoint for the target. So a subsequent lookup contains the
  target, once more often than before, and registering the same target twice adds it
  twice.
\<close>

theorem RegisterBackend_appends:
  "map URL (lookup (RegisterBackend model version url now r) model version)
     = map URL (lookup r model version) @ [url]"
  by (simp add: RegisterBackend_def lookup_def Let_def split: option.splits)

subsection \<open>Admission of a batch\<close>

text \<open>
  C6, as stated, fails: the body \<open>{"model":"resnet18","version":"v1","inputs":[]}\<close>
  decodes to a request whose \<open>Inputs\<close> is an empty slice, not \<open>nil\<close>; it passes the
  \<open>required\<close> check, is answered 202 and its descriptor is published.
\<close>

theorem empty_batch_counterexample:
  "BatchInference gateway_env (Inr empty_batch_request) [] =
     (\<lparr>code = 202,
       body = JObj [(''job_id'', JStr ''0b8a3c1e-5d2f-4e6a-9c7b-1f2e3d4c5b6a''),
                    (''status'', JStr ''pending''),
                    (''created_at'', JStr ''2024-01-01T00:00:00Z'')]\<rparr>,
      [(''0b8a3c1e-5d2f-4e6a-9c7b-1f2e3d4c5b6a'',
        JObj [(''job_id'', JStr ''0b8a3c1e-5d2f-4e6a-9c7b-1f2e3d4c5b6a''),
              (''model'', JStr ''resnet18''), (''version'', JStr ''v1''),
              (''inputs'', JArr []), (''created_at'', JStr ''2024-01-01T00:00:00Z'')])])"
  by code_simp

text \<open>
  C6, amended. For every batch submission whose body gives the request no \<open>inputs\<close>
  sequence at all, that is, whose decoded request has a \<open>nil\<close> \<open>Inputs\<close> (the body binds
  no member to the field, or binds \<open>null\<close>), the gateway rejects the request at admission
  with HTTP 400 and publishes no job descriptor to the durable log.
\<close>

theorem batch_without_inputs_rejected:
  assumes "br_Inputs req = None"
  shows "code (fst (BatchInference env (Inr req) topic)) = StatusBadRequest
       \<and> snd (BatchInference env (Inr req) topic) = topic"
proof -
  have "\<exists>e. bind_BatchInferenceRequest (Inr req) = Inl e"
    using assms by (simp add: bind_BatchInferenceRequest_def)
  then show ?thesis by (auto simp: BatchInference_def)
qed

theorem batch_without_inputs_rejected_witness:
  "br_Inputs no_inputs_request = None
   \<and> code (fst (BatchInference gateway_env (Inr no_inputs_request) [])) = 400
   \<and> snd (BatchInference gateway_env (Inr no_inputs_request) []) = []"
proof -
  have h: "br_Inputs no_inputs_request = None"
    by (simp add: no_inputs_request_def)
  from batch_without_inputs_rejected [OF h, of gateway_env "[]"]
  have "code (fst (BatchInference gateway_env (Inr no_inputs_request) [])) = 400
      \<and> snd (BatchInference gateway_env (Inr no_inputs_request) []) = []"
    by (simp add: StatusBadRequest_def)
  then show ?thesis using h by blast
qed

subsection \<open>Unknown target\<close>

text \<open>
  C7 at the request "missing model" of \<open>TestRealtimeInference\<close>, which expects 404: no
  backend is registered for the model \<open>nonexistent\<close>; the router's handler answers every
  routing error, this one included, with 503, and the gateway passes the router's status
  on with the body \<open>inference failed\<close>.
\<close>

theorem unknown_model_is_503:
  "fst (RouteRequest 0 (answered_call Second) ''nonexistent'' ''1'' startup_router)
     = Inl ''model not found: nonexistent''
   \<and> RealTimeInference gateway_env (router_service 0 (answered_call Second) startup_router)
        (Inr missing_model_request)
     = \<lparr>code = 503, body = JObj [(''error'', JStr ''inference failed'')]\<rparr>
   \<and> StatusNotFound = 404"
  by code_simp

subsection \<open>Validity of the retrieval reference\<close>

text \<open>
  C9 in the code: once the object is stored, \<open>UploadResults\<close> asks for a URL that expires
  after the duration \<open>7*24*3600\<close>, which is 604800 nanoseconds, less than a millisecond;
  seven days are 604800 seconds. (The comment at the call reads "valid for 7 days".)
\<close>

theorem presign_expiry:
  "MinIOStore_UploadResults (s\<lparr>put_object_err := None\<rparr>) None jobID manifest
     = (case PresignedGetObject s (bucket s) (''results/'' @ jobID @ ''.json'')
               (604800 * Nanosecond) of
          Inl e \<Rightarrow> Inl (''failed to generate presigned URL: '' @ e)
        | Inr url \<Rightarrow> Inr url)
   \<and> 604800 * Nanosecond < Millisecond
   \<and> 7 * 24 * Hour = 604800 * Second"
  by (simp add: MinIOStore_UploadResults_def Nanosecond_def Microsecond_def Millisecond_def
        Second_def Minute_def Hour_def)

subsection \<open>Throttling fails open\<close>

text \<open>
  C10. If the counter increment against the rate-limit store returns an error, the
  middleware calls the next handler, writes no response of its own (in particular no
  429), sets no header, and leaves the store as it was: the request is admitted and not
  counted. This holds for every limit, window, principal and store content.
\<close>

theorem RateLimit_fail_open:
  assumes "\<not> redis_up redis"
  shows "RateLimit limit window now user_id client_ip redis =
           (\<lparr>next_called = True, written = None, headers = []\<rparr>, redis)"
  using assms by (simp add: RateLimit_def Incr_def Let_def)

theorem RateLimit_fail_open_witness:
  "\<not> redis_up \<lparr>redis_up = False, counters = [''ratelimit:demo-user'' \<mapsto> 7], ttl = Map.empty\<rparr> \<and>
   fst (RateLimit 3 (60 * Second) 0 (Some ''demo-user'') ''10.0.0.1''
          \<lparr>redis_up = False, counters = [''ratelimit:demo-user'' \<mapsto> 7], ttl = Map.empty\<rparr>)
     = \<lparr>next_called = True, written = None, headers = []\<rparr>"
  using RateLimit_fail_open
    [of "\<lparr>redis_up = False, counters = [''ratelimit:demo-user'' \<mapsto> 7], ttl = Map.empty\<rparr>"
        3 "60 * Second" 0 "Some ''demo-user''" "''10.0.0.1''"]
  by simp

end
